theory Spec2Isabelle
  imports Main "HOL-Library.Word" "HOL-Library.List_Lexorder" "HOL-Library.Sublist"
begin

unbundle bit_operations_syntax

section \<open>Python strings\<close>

text \<open>
  A Python \<open>str\<close> is a sequence of Unicode code points; a code point is a natural number.
  Literals of the source are written \<open>py ''...''\<close>.
\<close>

type_synonym pystr = "nat list"

definition py :: "string \<Rightarrow> pystr" where
  "py s = map of_char s"

text \<open>\<open>str.isspace\<close> for one code point: the whitespace set of CPython.\<close>

definition is_space :: "nat \<Rightarrow> bool" where
  "is_space c \<longleftrightarrow>
     (9 \<le> c \<and> c \<le> 13) \<or> (28 \<le> c \<and> c \<le> 32) \<or> c = 133 \<or> c = 160 \<or> c = 5760 \<or>
     (8192 \<le> c \<and> c \<le> 8202) \<or> c = 8232 \<or> c = 8233 \<or> c = 8239 \<or> c = 8287 \<or> c = 12288"

definition strip :: "pystr \<Rightarrow> pystr" where
  "strip s = rev (dropWhile is_space (rev (dropWhile is_space s)))"

text \<open>
  \<open>str.lower\<close>, on the ASCII letters. The case mappings of the other code points are left
  out (they are kept as they are); no such mapping yields a string of ASCII letters that
  the program compares with.
\<close>

definition lower :: "pystr \<Rightarrow> pystr" where
  "lower s = map (\<lambda>c. if 65 \<le> c \<and> c \<le> 90 then c + 32 else c) s"

definition startswith :: "pystr \<Rightarrow> pystr \<Rightarrow> bool" where
  "startswith s p = (take (length p) s = p)"

definition endswith :: "pystr \<Rightarrow> pystr \<Rightarrow> bool" where
  "endswith s p = (length p \<le> length s \<and> drop (length s - length p) s = p)"

text \<open>\<open>t in s\<close> for strings: \<open>t\<close> occurs in \<open>s\<close> as a contiguous run.\<close>

fun str_in :: "pystr \<Rightarrow> pystr \<Rightarrow> bool" where
  "str_in t [] = (t = [])"
| "str_in t (c # cs) = (take (length t) (c # cs) = t \<or> str_in t cs)"

text \<open>\<open>str.replace(old, new)\<close> for a one-character \<open>old\<close>.\<close>

definition replace_char :: "nat \<Rightarrow> pystr \<Rightarrow> pystr \<Rightarrow> pystr" where
  "replace_char old new s = concat (map (\<lambda>c. if c = old then new else [c]) s)"

text \<open>The line boundaries of \<open>str.splitlines\<close>; \<open>\r\n\<close> counts as one boundary.\<close>

definition is_linebreak :: "nat \<Rightarrow> bool" where
  "is_linebreak c \<longleftrightarrow>
     (10 \<le> c \<and> c \<le> 13) \<or> (28 \<le> c \<and> c \<le> 30) \<or> c = 133 \<or> c = 8232 \<or> c = 8233"

fun splitlines_from :: "pystr \<Rightarrow> pystr \<Rightarrow> pystr list" where
  "splitlines_from cur [] = (if cur = [] then [] else [cur])"
| "splitlines_from cur [c] = (if is_linebreak c then [cur] else [cur @ [c]])"
| "splitlines_from cur (c # d # cs) =
     (if c = 13 \<and> d = 10 then cur # splitlines_from [] cs
      else if is_linebreak c then cur # splitlines_from [] (d # cs)
      else splitlines_from (cur @ [c]) (d # cs))"

definition splitlines :: "pystr \<Rightarrow> pystr list" where
  "splitlines s = splitlines_from [] s"

text \<open>\<open>s.split(sep)\<close> for a one-character separator: never the empty list.\<close>

fun split_from :: "nat \<Rightarrow> pystr \<Rightarrow> pystr \<Rightarrow> pystr list" where
  "split_from sep cur [] = [cur]"
| "split_from sep cur (c # cs) =
     (if c = sep then cur # split_from sep [] cs else split_from sep (cur @ [c]) cs)"

definition split :: "pystr \<Rightarrow> nat \<Rightarrow> pystr list" where
  "split s sep = split_from sep [] s"

text \<open>\<open>sep.join(xs)\<close>.\<close>

fun join :: "pystr \<Rightarrow> pystr list \<Rightarrow> pystr" where
  "join sep [] = []"
| "join sep [x] = x"
| "join sep (x # y # ys) = x @ sep @ join sep (y # ys)"

text \<open>\<open>str(n)\<close> for a length: the decimal digits.\<close>

fun digits_of :: "nat \<Rightarrow> nat \<Rightarrow> pystr" where
  "digits_of 0 n = []"
| "digits_of (Suc fuel) n =
     (if n < 10 then [48 + n] else digits_of fuel (n div 10) @ [48 + n mod 10])"

definition str_of_nat :: "nat \<Rightarrow> pystr" where
  "str_of_nat n = digits_of (Suc n) n"

section \<open>The script name pattern\<close>

text \<open>
  Regular expressions over code points, matched by derivatives. Python's \<open>re.match\<close>
  reports whether some match exists, which for these operators is membership in the
  language of the expression.
\<close>

datatype rx =
    Empty
  | Eps
  | Chr nat
  | Rng nat nat
  | Alt rx rx
  | Seq rx rx
  | Star rx

definition Plus :: "rx \<Rightarrow> rx" where
  "Plus r = Seq r (Star r)"

definition Opt :: "rx \<Rightarrow> rx" where
  "Opt r = Alt r Eps"

text \<open>
  \<open>$\<close> as the last item of a pattern, under \<open>re.match\<close> without flags: it holds at the
  end of the string and also just before a newline that ends the string. After it the
  pattern consumes nothing, so the rest of the string is empty or that one newline.
\<close>

definition Dollar :: rx where
  "Dollar = Alt Eps (Chr 10)"

fun nullable :: "rx \<Rightarrow> bool" where
  "nullable Empty = False"
| "nullable Eps = True"
| "nullable (Chr c) = False"
| "nullable (Rng a b) = False"
| "nullable (Alt r s) = (nullable r \<or> nullable s)"
| "nullable (Seq r s) = (nullable r \<and> nullable s)"
| "nullable (Star r) = True"

fun deriv :: "nat \<Rightarrow> rx \<Rightarrow> rx" where
  "deriv c Empty = Empty"
| "deriv c Eps = Empty"
| "deriv c (Chr d) = (if c = d then Eps else Empty)"
| "deriv c (Rng a b) = (if a \<le> c \<and> c \<le> b then Eps else Empty)"
| "deriv c (Alt r s) = Alt (deriv c r) (deriv c s)"
| "deriv c (Seq r s) =
     (if nullable r then Alt (Seq (deriv c r) s) (deriv c s) else Seq (deriv c r) s)"
| "deriv c (Star r) = Seq (deriv c r) (Star r)"

fun re_match :: "rx \<Rightarrow> pystr \<Rightarrow> bool" where
  "re_match r [] = nullable r"
| "re_match r (c # cs) = re_match (deriv c r) cs"

text \<open>The class \<open>[a-z0-9]\<close>.\<close>

definition lower_alnum :: rx where
  "lower_alnum = Alt (Rng 97 122) (Rng 48 57)"

text \<open>\<open>^[a-z0-9]+(?:-[a-z0-9]+)*(?:\.[a-z0-9]+)?$\<close>\<close>

definition SCRIPT_NAME_PATTERN :: rx where
  "SCRIPT_NAME_PATTERN =
     Seq (Plus lower_alnum)
       (Seq (Star (Seq (Chr 45) (Plus lower_alnum)))
         (Seq (Opt (Seq (Chr 46) (Plus lower_alnum))) Dollar))"

definition PATH_UPDATE_MARKER :: pystr where
  "PATH_UPDATE_MARKER = py ''# Added by term-tools install-helper-scripts''"

section \<open>Paths\<close>

text \<open>
  A \<open>pathlib\<close> path on POSIX: whether it has the root \<open>/\<close>, and its components.
  (The root \<open>//\<close> of POSIX is not told apart from \<open>/\<close>.)
\<close>

datatype Path = Path (absolute: bool) (parts: "pystr list")

text \<open>\<open>Path(s)\<close>: empty components and \<open>.\<close> are dropped, \<open>..\<close> is kept.\<close>

definition Path_of_str :: "pystr \<Rightarrow> Path" where
  "Path_of_str s =
     Path (startswith s (py ''/'')) (filter (\<lambda>c. c \<noteq> [] \<and> c \<noteq> py ''.'') (split s 47))"

text \<open>\<open>p / s\<close>\<close>

definition joinpath :: "Path \<Rightarrow> pystr \<Rightarrow> Path" where
  "joinpath p s =
     (let q = Path_of_str s
      in if absolute q then q else Path (absolute p) (parts p @ parts q))"

text \<open>\<open>p.name\<close>\<close>

definition name :: "Path \<Rightarrow> pystr" where
  "name p = (if parts p = [] then [] else last (parts p))"

text \<open>\<open>p.parent\<close>\<close>

definition parent :: "Path \<Rightarrow> Path" where
  "parent p = Path (absolute p) (butlast (parts p))"

text \<open>\<open>str(p)\<close>, which is also \<open>p.as_posix()\<close>.\<close>

definition str_of_path :: "Path \<Rightarrow> pystr" where
  "str_of_path p =
     (if absolute p then py ''/'' @ join (py ''/'') (parts p)
      else if parts p = [] then py ''.''
      else join (py ''/'') (parts p))"

text \<open>\<open>p.relative_to(q)\<close>; \<open>None\<close> is the \<open>ValueError\<close>.\<close>

definition relative_to :: "Path \<Rightarrow> Path \<Rightarrow> Path option" where
  "relative_to p q =
     (if absolute p = absolute q \<and> prefix (parts q) (parts p)
      then Some (Path False (drop (length (parts q)) (parts p)))
      else None)"

text \<open>
  The order in which \<open>sorted\<close> puts paths: by the list of the components, the root counting
  as an empty first component.
\<close>

definition path_key :: "Path \<Rightarrow> pystr list" where
  "path_key p = (if absolute p then [] # parts p else parts p)"

section \<open>Errors\<close>

text \<open>
  The exceptions that can reach the program. \<open>IsADirectoryError\<close> carries its message,
  since the program raises it with a text of its own; the text of an exception raised by
  the library is not modelled beyond the name of its class.
\<close>

datatype error =
    FileNotFoundError
  | FileExistsError
  | NotADirectoryError
  | IsADirectoryError pystr
  | SameFileError
  | PermissionError
  | OSError
  | RuntimeError
  | EOFError
  | UnicodeDecodeError
  | UnicodeEncodeError

type_synonym 'a res = "error + 'a"

text \<open>\<open>isinstance(e, OSError)\<close>\<close>

fun is_OSError :: "error \<Rightarrow> bool" where
  "is_OSError RuntimeError = False"
| "is_OSError EOFError = False"
| "is_OSError UnicodeDecodeError = False"
| "is_OSError UnicodeEncodeError = False"
| "is_OSError e = True"

fun str_of_error :: "error \<Rightarrow> pystr" where
  "str_of_error (IsADirectoryError m) = m"
| "str_of_error FileNotFoundError = py ''FileNotFoundError''"
| "str_of_error FileExistsError = py ''FileExistsError''"
| "str_of_error NotADirectoryError = py ''NotADirectoryError''"
| "str_of_error SameFileError = py ''SameFileError''"
| "str_of_error PermissionError = py ''PermissionError''"
| "str_of_error OSError = py ''OSError''"
| "str_of_error RuntimeError = py ''RuntimeError''"
| "str_of_error EOFError = py ''EOFError''"
| "str_of_error UnicodeDecodeError = py ''UnicodeDecodeError''"
| "str_of_error UnicodeEncodeError = py ''UnicodeEncodeError''"

section \<open>The filesystem\<close>

text \<open>
  The filesystem is a finite table from paths to nodes. A regular file has its text and
  its permission bits; a symbolic link has its target. A lookup takes the path as it is
  written and follows symbolic links in the last component only, as far as the kernel
  does (40 links): the table is keyed by canonical absolute paths, and so are the targets
  of links. The files belong to the user who runs the program, who is not the superuser:
  the text of a file is read with the owner-read bit and written with the owner-write bit.
  The permission bits of directories are not kept, so that making and removing an entry
  is never denied. An element of a text that is not a Unicode scalar value stands for
  bytes that are not UTF-8.
\<close>

datatype node = File (text_of: pystr) (perm_of: "32 word") | Dir | Symlink Path

type_synonym fs = "(Path \<times> node) list"

definition lstat :: "fs \<Rightarrow> Path \<Rightarrow> node option" where
  "lstat fs p = map_of fs p"

fun follow :: "nat \<Rightarrow> fs \<Rightarrow> Path \<Rightarrow> Path option" where
  "follow 0 fs p = None"
| "follow (Suc n) fs p =
     (case map_of fs p of Some (Symlink t) \<Rightarrow> follow n fs t | _ \<Rightarrow> Some p)"

definition final_path :: "fs \<Rightarrow> Path \<Rightarrow> Path option" where
  "final_path fs p = follow 41 fs p"

definition stat :: "fs \<Rightarrow> Path \<Rightarrow> node option" where
  "stat fs p = (case final_path fs p of None \<Rightarrow> None | Some q \<Rightarrow> map_of fs q)"

definition exists :: "fs \<Rightarrow> Path \<Rightarrow> bool" where
  "exists fs p = (stat fs p \<noteq> None)"

definition is_dir :: "fs \<Rightarrow> Path \<Rightarrow> bool" where
  "is_dir fs p = (stat fs p = Some Dir)"

definition is_file :: "fs \<Rightarrow> Path \<Rightarrow> bool" where
  "is_file fs p = (case stat fs p of Some (File c m) \<Rightarrow> True | _ \<Rightarrow> False)"

definition is_symlink :: "fs \<Rightarrow> Path \<Rightarrow> bool" where
  "is_symlink fs p = (case lstat fs p of Some (Symlink t) \<Rightarrow> True | _ \<Rightarrow> False)"

definition fs_remove :: "fs \<Rightarrow> Path \<Rightarrow> fs" where
  "fs_remove fs p = filter (\<lambda>e. fst e \<noteq> p) fs"

definition fs_put :: "fs \<Rightarrow> Path \<Rightarrow> node \<Rightarrow> fs" where
  "fs_put fs p n = (p, n) # fs_remove fs p"

text \<open>
  \<open>d.iterdir()\<close>: the entries of the directory that \<open>d\<close> is or links to, in the
  order of the table; the caller sorts. The entries are given by their paths in the table:
  under a link these are the paths below its target, which have the same names and are the
  same files as the paths below \<open>d\<close>.
\<close>

definition iterdir :: "fs \<Rightarrow> Path \<Rightarrow> Path list" where
  "iterdir fs d =
     (case final_path fs d of
        None \<Rightarrow> []
      | Some t \<Rightarrow> remdups (filter (\<lambda>p. parts p \<noteq> [] \<and> parent p = t) (map fst fs)))"

definition S_IXUSR :: "32 word" where
  "S_IXUSR = 64"

definition S_IRUSR :: "32 word" where
  "S_IRUSR = 256"

definition S_IWUSR :: "32 word" where
  "S_IWUSR = 128"

definition S_IFREG :: "32 word" where
  "S_IFREG = 32768"

definition S_IFDIR :: "32 word" where
  "S_IFDIR = 16384"

definition S_IFLNK :: "32 word" where
  "S_IFLNK = 40960"

text \<open>\<open>stat.S_IMODE\<close>: the bits \<open>0o7777\<close>.\<close>

definition S_IMODE :: "32 word \<Rightarrow> 32 word" where
  "S_IMODE m = m AND 4095"

fun st_mode :: "node \<Rightarrow> 32 word" where
  "st_mode (File c m) = S_IFREG OR m"
| "st_mode Dir = S_IFDIR"
| "st_mode (Symlink t) = S_IFLNK"

text \<open>\<open>p.unlink()\<close>\<close>

definition unlink :: "fs \<Rightarrow> Path \<Rightarrow> fs res" where
  "unlink fs p =
     (case lstat fs p of
        None \<Rightarrow> Inl FileNotFoundError
      | Some Dir \<Rightarrow> Inl (IsADirectoryError (py ''[Errno 21] Is a directory''))
      | Some n \<Rightarrow> Inr (fs_remove fs p))"

text \<open>\<open>p.symlink_to(target)\<close>\<close>

definition symlink_to :: "fs \<Rightarrow> Path \<Rightarrow> Path \<Rightarrow> fs res" where
  "symlink_to fs p target =
     (if lstat fs p \<noteq> None then Inl FileExistsError
      else if \<not> is_dir fs (parent p) then Inl FileNotFoundError
      else Inr (fs_put fs p (Symlink target)))"

text \<open>
  \<open>shutil.copy2(src, dst)\<close>: into \<open>dst\<close> when that is a directory; the text of the source
  and then its permission bits (\<open>copystat\<close>), through symbolic links on both sides.
\<close>

definition copy2 :: "fs \<Rightarrow> Path \<Rightarrow> Path \<Rightarrow> fs res" where
  "copy2 fs src dst =
     (let dst' = (if is_dir fs dst then joinpath dst (name src) else dst)
      in case stat fs src of
           None \<Rightarrow> Inl FileNotFoundError
         | Some Dir \<Rightarrow> Inl (IsADirectoryError (py ''[Errno 21] Is a directory''))
         | Some (Symlink t) \<Rightarrow> Inl OSError
         | Some (File c m) \<Rightarrow>
             if m AND S_IRUSR = 0 then Inl PermissionError
             else
             (case final_path fs dst' of
                None \<Rightarrow> Inl OSError
              | Some q \<Rightarrow>
                  if lstat fs q = Some Dir
                  then Inl (IsADirectoryError (py ''[Errno 21] Is a directory''))
                  else if lstat fs q \<noteq> None \<and> final_path fs src = Some q then Inl SameFileError
                  else if \<not> is_dir fs (parent q) then Inl FileNotFoundError
                  else Inr (fs_put fs q (File c (S_IMODE (st_mode (File c m)))))))"

text \<open>\<open>p.chmod(mode)\<close>: the kernel keeps the bits \<open>0o7777\<close> of the mode.\<close>

definition chmod :: "fs \<Rightarrow> Path \<Rightarrow> 32 word \<Rightarrow> fs res" where
  "chmod fs p mode =
     (case final_path fs p of
        None \<Rightarrow> Inl OSError
      | Some q \<Rightarrow>
          (case lstat fs q of
             None \<Rightarrow> Inl FileNotFoundError
           | Some (File c m) \<Rightarrow> Inr (fs_put fs q (File c (mode AND 4095)))
           | Some n \<Rightarrow> Inr fs))"

text \<open>\<open>os.mkdir(p)\<close>, with the \<open>exist_ok\<close> of \<open>Path.mkdir\<close>.\<close>

definition os_mkdir :: "fs \<Rightarrow> Path \<Rightarrow> fs res" where
  "os_mkdir fs p =
     (if lstat fs p \<noteq> None then (if is_dir fs p then Inr fs else Inl FileExistsError)
      else case stat fs (parent p) of
             Some Dir \<Rightarrow> Inr (fs_put fs p Dir)
           | Some n \<Rightarrow> Inl NotADirectoryError
           | None \<Rightarrow> Inl FileNotFoundError)"

text \<open>\<open>p.mkdir(parents=True, exist_ok=True)\<close>\<close>

function mkdir_p :: "fs \<Rightarrow> Path \<Rightarrow> fs res" where
  "mkdir_p fs p =
     (case os_mkdir fs p of
        Inl FileNotFoundError \<Rightarrow>
          (if parent p = p then Inl FileNotFoundError
           else case mkdir_p fs (parent p) of
                  Inl e \<Rightarrow> Inl e
                | Inr fs1 \<Rightarrow> os_mkdir fs1 p)
      | r \<Rightarrow> r)"
  by pat_completeness auto
termination
proof (relation "measure (\<lambda>(fs, p). length (parts p))")
  show "wf (measure (\<lambda>(fs, p). length (parts p)))" by simp
next
  fix fs :: fs and p :: Path and x :: error
  assume "parent p \<noteq> p"
  then have "parts p \<noteq> []" by (cases p) (auto simp: parent_def)
  then show "((fs, parent p), (fs, p)) \<in> measure (\<lambda>(fs, p). length (parts p))"
    by (simp add: parent_def)
qed

declare mkdir_p.simps [simp del]

text \<open>The code points that UTF-8 encodes: the Unicode scalar values.\<close>

definition is_scalar :: "nat \<Rightarrow> bool" where
  "is_scalar c \<longleftrightarrow> c < 55296 \<or> (57344 \<le> c \<and> c \<le> 1114111)"

text \<open>
  Reading in text mode with universal newlines: \<open>\r\n\<close> and a lone \<open>\r\<close> are read as
  \<open>\n\<close>.
\<close>

fun universal_newlines :: "pystr \<Rightarrow> pystr" where
  "universal_newlines [] = []"
| "universal_newlines [c] = (if c = 13 then [10] else [c])"
| "universal_newlines (c # d # cs) =
     (if c = 13 \<and> d = 10 then 10 # universal_newlines cs
      else if c = 13 then 10 # universal_newlines (d # cs)
      else c # universal_newlines (d # cs))"

text \<open>\<open>p.read_text(encoding="utf-8")\<close>\<close>

definition read_text :: "fs \<Rightarrow> Path \<Rightarrow> pystr res" where
  "read_text fs p =
     (case stat fs p of
        None \<Rightarrow> Inl FileNotFoundError
      | Some (File c m) \<Rightarrow>
          if m AND S_IRUSR = 0 then Inl PermissionError
          else if \<not> list_all is_scalar c then Inl UnicodeDecodeError
          else Inr (universal_newlines c)
      | Some n \<Rightarrow> Inl (IsADirectoryError (py ''[Errno 21] Is a directory'')))"

text \<open>
  \<open>p.open("a", encoding="utf-8")\<close>: the path of the file that the handle writes to, which
  is created empty with the bits \<open>0o666\<close> less the umask when it is not there.
\<close>

definition open_append :: "32 word \<Rightarrow> fs \<Rightarrow> Path \<Rightarrow> (Path \<times> fs) res" where
  "open_append um fs p =
     (case final_path fs p of
        None \<Rightarrow> Inl OSError
      | Some q \<Rightarrow>
          (case lstat fs q of
             Some (File c m) \<Rightarrow> if m AND S_IWUSR = 0 then Inl PermissionError else Inr (q, fs)
           | Some n \<Rightarrow> Inl (IsADirectoryError (py ''[Errno 21] Is a directory''))
           | None \<Rightarrow>
               if is_dir fs (parent q) then Inr (q, fs_put fs q (File [] (438 AND NOT um)))
               else Inl FileNotFoundError))"

text \<open>
  \<open>file_handle.write(s)\<close> on a handle opened for appending: the text goes to the end of
  the file, unless it cannot be encoded.
\<close>

definition write_text :: "fs \<Rightarrow> Path \<Rightarrow> pystr \<Rightarrow> fs res" where
  "write_text fs q s =
     (if \<not> list_all is_scalar s then Inl UnicodeEncodeError
      else case lstat fs q of
             Some (File c m) \<Rightarrow> Inr (fs_put fs q (File (c @ s) m))
           | _ \<Rightarrow> Inl OSError)"

section \<open>The environment of a run\<close>

text \<open>
  What the program reads from its process and from the library: the home directory
  (\<open>Path.home().expanduser()\<close>), the variables \<open>SHELL\<close> and \<open>PATH\<close>, the directory of
  the program (\<open>Path(__file__).resolve().parent\<close>, here \<open>program_dir\<close>), the umask, and \<open>resolve\<close>, which
  stands for \<open>p.expanduser().resolve()\<close> on the filesystem as it is at the call.
\<close>

record os_env =
  home :: Path
  env_SHELL :: "pystr option"
  env_PATH :: "pystr option"
  program_dir :: Path
  umask :: "32 word"
  resolve :: "fs \<Rightarrow> Path \<Rightarrow> Path res"

text \<open>The parsed command line.\<close>

record args =
  arg_install_dir :: Path
  arg_symlink :: bool
  arg_yes :: bool

text \<open>
  The filesystem, the lines still to be read from standard input, and what has been written
  to standard output (one entry for each \<open>print\<close> and for each prompt).
\<close>

record world =
  files :: fs
  stdin :: "pystr list"
  stdout :: "pystr list"

definition print :: "world \<Rightarrow> pystr \<Rightarrow> world" where
  "print w s = w\<lparr>stdout := stdout w @ [s]\<rparr>"

definition print_each :: "world \<Rightarrow> pystr list \<Rightarrow> world" where
  "print_each w ls = foldl print w ls"

text \<open>\<open>input(prompt)\<close>: the next line without its newline, \<open>EOFError\<close> at the end.\<close>

definition input :: "world \<Rightarrow> pystr \<Rightarrow> pystr res \<times> world" where
  "input w prompt =
     (let w1 = print w prompt
      in case stdin w1 of
           [] \<Rightarrow> (Inl EOFError, w1)
         | l # ls \<Rightarrow> (Inr l, w1\<lparr>stdin := ls\<rparr>))"

record PathUpdateTarget =
  shell_name :: pystr
  rc_file :: Path
  path_line :: pystr

section \<open>The program\<close>

text \<open>The body of the loop of \<open>discover_source_scripts\<close>, with its two lists.\<close>

fun discover_loop :: "fs \<Rightarrow> Path list \<Rightarrow> Path list \<Rightarrow> Path list \<Rightarrow> Path list \<times> Path list" where
  "discover_loop fs [] source_scripts invalid_script_names =
     (source_scripts, invalid_script_names)"
| "discover_loop fs (script_path # rest) source_scripts invalid_script_names =
     (if \<not> is_file fs script_path
      then discover_loop fs rest source_scripts invalid_script_names
      else if startswith (name script_path) (py ''.'')
      then discover_loop fs rest source_scripts invalid_script_names
      else if \<not> re_match SCRIPT_NAME_PATTERN (name script_path)
      then discover_loop fs rest source_scripts (invalid_script_names @ [script_path])
      else discover_loop fs rest (source_scripts @ [script_path]) invalid_script_names)"

definition discover_source_scripts :: "fs \<Rightarrow> Path \<Rightarrow> Path \<times> Path list \<times> Path list" where
  "discover_source_scripts fs repo_root =
     (let bin_dir = joinpath repo_root (py ''bin'')
      in if \<not> is_dir fs bin_dir then (bin_dir, [], [])
         else (bin_dir, discover_loop fs (sort_key path_key (iterdir fs bin_dir)) [] []))"

text \<open>\<open>p.parents\<close>: from the parent up to the root.\<close>

definition parents :: "Path \<Rightarrow> Path list" where
  "parents p = map (\<lambda>k. Path (absolute p) (take k (parts p))) (rev [0..<length (parts p)])"

definition detect_repo_root :: "fs \<Rightarrow> Path \<Rightarrow> Path" where
  "detect_repo_root fs script_dir =
     (case find (\<lambda>candidate. is_dir fs (joinpath candidate (py ''bin'')))
             (script_dir # parents script_dir) of
        Some candidate \<Rightarrow> candidate
      | None \<Rightarrow> script_dir)"

fun is_in_path_loop :: "os_env \<Rightarrow> fs \<Rightarrow> Path \<Rightarrow> pystr list \<Rightarrow> bool res" where
  "is_in_path_loop os fs target [] = Inr False"
| "is_in_path_loop os fs target (entry # rest) =
     (if entry = [] then is_in_path_loop os fs target rest
      else case resolve os fs (Path_of_str entry) of
             Inl e \<Rightarrow> if is_OSError e then is_in_path_loop os fs target rest else Inl e
           | Inr r \<Rightarrow> if r = target then Inr True else is_in_path_loop os fs target rest)"

definition is_in_path :: "os_env \<Rightarrow> fs \<Rightarrow> Path \<Rightarrow> bool res" where
  "is_in_path os fs directory =
     (case resolve os fs directory of
        Inl e \<Rightarrow> Inl e
      | Inr target \<Rightarrow>
          is_in_path_loop os fs target
            (split (case env_PATH os of None \<Rightarrow> [] | Some v \<Rightarrow> v) 58))"

definition confirm_overwrites :: "world \<Rightarrow> Path list \<Rightarrow> bool \<Rightarrow> bool res \<times> world" where
  "confirm_overwrites w overwrite_paths assume_yes =
     (if overwrite_paths = [] then (Inr True, w)
      else
        let w1 = print w (py ''The following files already exist and will be replaced:'');
            w2 = print_each w1 (map (\<lambda>path. py ''  - '' @ str_of_path path) overwrite_paths)
        in if assume_yes then (Inr True, print w2 (py ''Proceeding due to -y/--yes.''))
           else case input w2 (py ''Continue with overwrite? [y/N]: '') of
                  (Inl e, w3) \<Rightarrow> (Inl e, w3)
                | (Inr response, w3) \<Rightarrow>
                    (Inr (lower (strip response) \<in> {py ''y'', py ''yes''}), w3))"

definition format_posix_path_value :: "os_env \<Rightarrow> fs \<Rightarrow> Path \<Rightarrow> Path \<Rightarrow> pystr res" where
  "format_posix_path_value os fs path home_dir =
     (case resolve os fs path of
        Inl e \<Rightarrow> Inl e
      | Inr normalized_path \<Rightarrow>
          (case resolve os fs home_dir of
             Inl e \<Rightarrow> Inl e
           | Inr normalized_home \<Rightarrow>
               if normalized_path = normalized_home then Inr (py ''$HOME'')
               else case relative_to normalized_path normalized_home of
                      None \<Rightarrow> Inr (str_of_path normalized_path)
                    | Some relative_path \<Rightarrow> Inr (py ''$HOME/'' @ str_of_path relative_path)))"

fun choose_bash_rc_loop :: "fs \<Rightarrow> Path \<Rightarrow> pystr list \<Rightarrow> Path option" where
  "choose_bash_rc_loop fs home_dir [] = None"
| "choose_bash_rc_loop fs home_dir (candidate_name # rest) =
     (let candidate = joinpath home_dir candidate_name
      in if exists fs candidate then Some candidate
         else choose_bash_rc_loop fs home_dir rest)"

definition choose_bash_rc_file :: "fs \<Rightarrow> Path \<Rightarrow> Path" where
  "choose_bash_rc_file fs home_dir =
     (case choose_bash_rc_loop fs home_dir [py ''.bashrc'', py ''.bash_profile'', py ''.profile''] of
        Some candidate \<Rightarrow> candidate
      | None \<Rightarrow> joinpath home_dir (py ''.bashrc''))"

definition export_line :: "pystr \<Rightarrow> pystr" where
  "export_line v = py ''export PATH=\"'' @ v @ py '':$PATH\"''"

definition fish_line :: "pystr \<Rightarrow> pystr" where
  "fish_line v = py ''fish_add_path \"'' @ v @ py ''\"''"

definition detect_path_update_target :: "os_env \<Rightarrow> fs \<Rightarrow> Path \<Rightarrow> PathUpdateTarget res" where
  "detect_path_update_target os fs install_dir =
     (let home_dir = home os;
          shell_name =
            lower (name (Path_of_str (case env_SHELL os of None \<Rightarrow> [] | Some v \<Rightarrow> v)))
      in case format_posix_path_value os fs install_dir home_dir of
           Inl e \<Rightarrow> Inl e
         | Inr posix_path_value \<Rightarrow>
             let escaped_posix_path_value = replace_char 34 [92, 34] posix_path_value;
                 (rc, line) =
                   (if shell_name = py ''zsh''
                    then (joinpath home_dir (py ''.zshrc''), export_line escaped_posix_path_value)
                    else if shell_name = py ''bash''
                    then (choose_bash_rc_file fs home_dir, export_line escaped_posix_path_value)
                    else if shell_name = py ''fish''
                    then (joinpath (joinpath (joinpath home_dir (py ''.config'')) (py ''fish''))
                            (py ''config.fish''),
                          fish_line escaped_posix_path_value)
                    else (joinpath home_dir (py ''.profile''),
                          export_line escaped_posix_path_value))
             in Inr \<lparr>shell_name = (if shell_name = [] then py ''unknown'' else shell_name),
                     rc_file = rc, path_line = line\<rparr>)"

text \<open>The loop of \<open>rc_file_has_path_entry\<close> over the lines of the file.\<close>

fun scan_lines :: "pystr list \<Rightarrow> pystr list \<Rightarrow> bool" where
  "scan_lines detection_tokens [] = False"
| "scan_lines detection_tokens (raw_line # rest) =
     (let line = strip raw_line
      in if line = [] \<or> startswith line (py ''#'') then scan_lines detection_tokens rest
         else if \<not> str_in (py ''PATH'') line \<and> \<not> str_in (py ''fish_add_path'') line
         then scan_lines detection_tokens rest
         else if list_ex (\<lambda>token. str_in token line) detection_tokens then True
         else scan_lines detection_tokens rest)"

definition rc_file_has_path_entry :: "os_env \<Rightarrow> fs \<Rightarrow> PathUpdateTarget \<Rightarrow> Path \<Rightarrow> bool res" where
  "rc_file_has_path_entry os fs target install_dir =
     (if \<not> exists fs (rc_file target) then Inr False
      else case read_text fs (rc_file target) of
             Inl e \<Rightarrow> if is_OSError e then Inr False else Inl e
           | Inr content \<Rightarrow>
               (case format_posix_path_value os fs install_dir (home os) of
                  Inl e \<Rightarrow> Inl e
                | Inr v \<Rightarrow> Inr (scan_lines [str_of_path install_dir, v] (splitlines content))))"

text \<open>
  \<open>append_path_update\<close>: the error, if one is raised, and the filesystem as it is left.
\<close>

definition append_path_update :: "os_env \<Rightarrow> fs \<Rightarrow> PathUpdateTarget \<Rightarrow> unit res \<times> fs" where
  "append_path_update os fs target =
     (case mkdir_p fs (parent (rc_file target)) of
        Inl e \<Rightarrow> (Inl e, fs)
      | Inr fs1 \<Rightarrow>
          (case (if exists fs1 (rc_file target)
                 then (case read_text fs1 (rc_file target) of
                         Inl e \<Rightarrow> if is_OSError e then Inr False else Inl e
                       | Inr existing \<Rightarrow> Inr (existing \<noteq> [] \<and> \<not> endswith existing [10]))
                 else Inr False) of
             Inl e \<Rightarrow> (Inl e, fs1)
           | Inr needs_separator \<Rightarrow>
               (case open_append (umask os) fs1 (rc_file target) of
                  Inl e \<Rightarrow> (Inl e, fs1)
                | Inr (file_handle, fs2) \<Rightarrow>
                    (case (if needs_separator then write_text fs2 file_handle [10] else Inr fs2) of
                       Inl e \<Rightarrow> (Inl e, fs2)
                     | Inr fs3 \<Rightarrow>
                         (case write_text fs3 file_handle
                                 (PATH_UPDATE_MARKER @ [10] @ path_line target @ [10]) of
                            Inl e \<Rightarrow> (Inl e, fs3)
                          | Inr fs4 \<Rightarrow> (Inr (), fs4))))))"

definition maybe_offer_path_update :: "os_env \<Rightarrow> world \<Rightarrow> Path \<Rightarrow> bool \<Rightarrow> unit res \<times> world" where
  "maybe_offer_path_update os w install_dir assume_yes =
     (case is_in_path os (files w) install_dir of
        Inl e \<Rightarrow> (Inl e, w)
      | Inr True \<Rightarrow> (Inr (), w)
      | Inr False \<Rightarrow>
          (case detect_path_update_target os (files w) install_dir of
             Inl e \<Rightarrow> (Inl e, w)
           | Inr target \<Rightarrow>
               (case rc_file_has_path_entry os (files w) target install_dir of
                  Inl e \<Rightarrow> (Inl e, w)
                | Inr already_configured \<Rightarrow>
                    let w1 = print w (str_of_path install_dir @
                               py '' is not currently on PATH in this shell session (detected shell: '' @
                               shell_name target @ py '').'');
                        w2 = print w1 (py ''Suggested line for '' @ str_of_path (rc_file target) @ py '':'');
                        w3 = print w2 (py ''  '' @ path_line target)
                    in if already_configured
                       then (Inr (),
                             print w3 (str_of_path (rc_file target) @
                               py '' already appears to include this PATH entry. Open a new shell or source the file to apply it.''))
                       else
                         (case (if assume_yes
                                then (Inr True, print w3 (py ''Updating PATH config due to -y/--yes.''))
                                else case input w3 (py ''Add this line to '' @ str_of_path (rc_file target) @
                                                     py ''? [y/N]: '') of
                                       (Inl e, w4) \<Rightarrow> (Inl e, w4)
                                     | (Inr response, w4) \<Rightarrow>
                                         (Inr (lower (strip response) \<in> {py ''y'', py ''yes''}), w4)) of
                            (Inl e, w4) \<Rightarrow> (Inl e, w4)
                          | (Inr True, w4) \<Rightarrow>
                              (case append_path_update os (files w4) target of
                                 (Inl e, fs1) \<Rightarrow>
                                   if is_OSError e
                                   then (Inr (),
                                         print (print (w4\<lparr>files := fs1\<rparr>)
                                                  (py ''Failed to update '' @ str_of_path (rc_file target) @
                                                   py '': '' @ str_of_error e))
                                           (py ''Add the suggested line manually to your shell RC file.''))
                                   else (Inl e, w4\<lparr>files := fs1\<rparr>)
                               | (Inr u, fs1) \<Rightarrow>
                                   (Inr (),
                                    print (print (w4\<lparr>files := fs1\<rparr>)
                                             (py ''Updated '' @ str_of_path (rc_file target) @ py ''.''))
                                      (py ''Open a new shell or run: source '' @ str_of_path (rc_file target))))
                          | (Inr False, w4) \<Rightarrow>
                              (Inr (),
                               print (print w4 (py ''Skipped PATH update.''))
                                 (py ''Add the suggested line manually to '' @
                                  str_of_path (rc_file target) @ py ''.''))))))"

definition destination_exists :: "fs \<Rightarrow> Path \<Rightarrow> bool" where
  "destination_exists fs path = (exists fs path \<or> is_symlink fs path)"

text \<open>
  One turn of the loop of \<open>install_scripts_with_mode\<close>: the destination path when the
  script is installed, the error otherwise, and the filesystem as the turn leaves it.
\<close>

definition install_one :: "os_env \<Rightarrow> fs \<Rightarrow> Path \<Rightarrow> Path \<Rightarrow> bool \<Rightarrow> Path res \<times> fs" where
  "install_one os fs source_path install_dir use_symlink =
     (let destination_path = joinpath install_dir (name source_path)
      in case (if destination_exists fs destination_path
               then (if is_dir fs destination_path \<and> \<not> is_symlink fs destination_path
                     then Inl (IsADirectoryError
                                 (py ''Cannot replace directory with script file: '' @
                                  str_of_path destination_path))
                     else unlink fs destination_path)
               else Inr fs) of
           Inl e \<Rightarrow> (Inl e, fs)
         | Inr fs1 \<Rightarrow>
             if use_symlink
             then (case resolve os fs1 source_path of
                     Inl e \<Rightarrow> (Inl e, fs1)
                   | Inr target \<Rightarrow>
                       (case symlink_to fs1 destination_path target of
                          Inl e \<Rightarrow> (Inl e, fs1)
                        | Inr fs2 \<Rightarrow> (Inr destination_path, fs2)))
             else (case copy2 fs1 source_path destination_path of
                     Inl e \<Rightarrow> (Inl e, fs1)
                   | Inr fs2 \<Rightarrow>
                       (case stat fs2 destination_path of
                          None \<Rightarrow> (Inl FileNotFoundError, fs2)
                        | Some n \<Rightarrow>
                            (case chmod fs2 destination_path (st_mode n OR S_IXUSR) of
                               Inl e \<Rightarrow> (Inl e, fs2)
                             | Inr fs3 \<Rightarrow> (Inr destination_path, fs3)))))"

fun install_loop ::
  "os_env \<Rightarrow> fs \<Rightarrow> Path list \<Rightarrow> Path \<Rightarrow> bool \<Rightarrow> Path list \<Rightarrow> Path list res \<times> fs" where
  "install_loop os fs [] install_dir use_symlink installed_paths = (Inr installed_paths, fs)"
| "install_loop os fs (source_path # rest) install_dir use_symlink installed_paths =
     (case install_one os fs source_path install_dir use_symlink of
        (Inl e, fs1) \<Rightarrow> (Inl e, fs1)
      | (Inr destination_path, fs1) \<Rightarrow>
          install_loop os fs1 rest install_dir use_symlink (installed_paths @ [destination_path]))"

definition install_scripts_with_mode ::
  "os_env \<Rightarrow> fs \<Rightarrow> Path list \<Rightarrow> Path \<Rightarrow> bool \<Rightarrow> Path list res \<times> fs" where
  "install_scripts_with_mode os fs source_scripts install_dir use_symlink =
     install_loop os fs source_scripts install_dir use_symlink []"

text \<open>The loop of \<open>main\<close> that collects the destinations already there.\<close>

definition overwrite_paths_of :: "fs \<Rightarrow> Path list \<Rightarrow> Path \<Rightarrow> Path list" where
  "overwrite_paths_of fs source_scripts install_dir =
     filter (destination_exists fs)
       (map (\<lambda>source_path. joinpath install_dir (name source_path)) source_scripts)"

text \<open>
  \<open>main\<close>, from the parsed arguments: the value it returns, or the exception that leaves it,
  and the world as it is then.
\<close>

definition main :: "os_env \<Rightarrow> args \<Rightarrow> world \<Rightarrow> nat res \<times> world" where
  "main os a w =
     (let repo_root = detect_repo_root (files w) (program_dir os)
      in case resolve os (files w) (arg_install_dir a) of
           Inl e \<Rightarrow> (Inl e, w)
         | Inr install_dir \<Rightarrow>
             (case discover_source_scripts (files w) repo_root of
                (source_dir, source_scripts, invalid_script_names) \<Rightarrow>
                  if invalid_script_names \<noteq> []
                  then (Inr 2,
                        print
                          (print_each
                             (print w (py ''The following bin scripts do not follow lowercase kebab-case naming:''))
                             (map (\<lambda>path. py ''  - '' @ name path) invalid_script_names))
                          (py ''Rename these files before installing.''))
                  else if source_scripts = []
                  then (Inr 0,
                        print w (py ''No installable scripts found in '' @ str_of_path source_dir @ py ''.''))
                  else
                    (case mkdir_p (files w) install_dir of
                       Inl e \<Rightarrow> (Inl e, w)
                     | Inr fs1 \<Rightarrow>
                         (case confirm_overwrites (w\<lparr>files := fs1\<rparr>)
                                 (overwrite_paths_of fs1 source_scripts install_dir) (arg_yes a) of
                            (Inl e, w2) \<Rightarrow> (Inl e, w2)
                          | (Inr False, w2) \<Rightarrow> (Inr 1, print w2 (py ''Installation cancelled.''))
                          | (Inr True, w2) \<Rightarrow>
                              (case install_scripts_with_mode os (files w2) source_scripts install_dir
                                      (arg_symlink a) of
                                 (Inl e, fs3) \<Rightarrow>
                                   if is_OSError e
                                   then (Inr 1,
                                         print (w2\<lparr>files := fs3\<rparr>)
                                           (py ''Installation failed: '' @ str_of_error e))
                                   else (Inl e, w2\<lparr>files := fs3\<rparr>)
                               | (Inr installed_paths, fs3) \<Rightarrow>
                                   let w3 = print (w2\<lparr>files := fs3\<rparr>)
                                              (py ''Installed '' @ str_of_nat (length installed_paths) @
                                               py '' script(s) into '' @ str_of_path install_dir @
                                               py '' using '' @
                                               (if arg_symlink a then py ''symlink'' else py ''copy'') @
                                               py '' mode.'');
                                       w4 = print_each w3
                                              (map (\<lambda>path. py ''  - '' @ str_of_path path) installed_paths)
                                   in case maybe_offer_path_update os w4 install_dir (arg_yes a) of
                                        (Inl e, w5) \<Rightarrow> (Inl e, w5)
                                      | (Inr u, w5) \<Rightarrow> (Inr 0, w5))))))"

text \<open>
  The exit status of the process under \<open>sys.exit(main())\<close>: the value returned, and 1 when
  an exception leaves \<open>main\<close>.
\<close>

fun exit_status :: "nat res \<Rightarrow> nat" where
  "exit_status (Inl e) = 1"
| "exit_status (Inr code) = code"

section \<open>Well-formed filesystems\<close>

text \<open>
  The table is the image of a directory tree when every path in it is absolute, made of
  proper components, and lies in a directory that is itself in the table.
\<close>

definition proper_component :: "pystr \<Rightarrow> bool" where
  "proper_component c \<longleftrightarrow> c \<noteq> [] \<and> c \<noteq> py ''.'' \<and> c \<noteq> py ''..'' \<and> 47 \<notin> set c"

definition wf_fs :: "fs \<Rightarrow> bool" where
  "wf_fs fs =
     list_all (\<lambda>p. absolute p \<and> list_all proper_component (parts p) \<and>
                    (parts p \<noteq> [] \<longrightarrow> lstat fs (parent p) = Some Dir))
       (map fst fs)"

section \<open>Example data\<close>

definition abs_path :: "string list \<Rightarrow> Path" where
  "abs_path cs = Path True (map py cs)"

text \<open>An environment in which every path is already in canonical form.\<close>

definition ex_os :: os_env where
  "ex_os = \<lparr>home = abs_path [''home'', ''u''], env_SHELL = Some (py ''/bin/zsh''),
            env_PATH = Some (py ''/usr/bin:/bin''), program_dir = abs_path [''repo''],
            umask = 18, resolve = (\<lambda>fs p. Inr p)\<rparr>"

text \<open>
  The repository of the specification's example: \<open>foo-bar\<close>, \<open>baz.sh\<close>, \<open>.hidden\<close> and
  \<open>BadName\<close> in \<open>bin\<close>, and a subdirectory beside them.
\<close>

definition ex_fs_badname :: fs where
  "ex_fs_badname =
     [(abs_path [], Dir),
      (abs_path [''repo''], Dir),
      (abs_path [''repo'', ''bin''], Dir),
      (abs_path [''repo'', ''bin'', ''foo-bar''], File (py ''echo foo'') 420),
      (abs_path [''repo'', ''bin'', ''baz.sh''], File (py ''echo baz'') 493),
      (abs_path [''repo'', ''bin'', ''.hidden''], File (py ''secret'') 420),
      (abs_path [''repo'', ''bin'', ''sub''], Dir),
      (abs_path [''repo'', ''bin'', ''BadName''], File (py ''echo bad'') 493),
      (abs_path [''home''], Dir),
      (abs_path [''home'', ''u''], Dir)]"

text \<open>A repository with no \<open>bin\<close> directory.\<close>

definition ex_fs_nobin :: fs where
  "ex_fs_nobin =
     [(abs_path [], Dir),
      (abs_path [''repo''], Dir),
      (abs_path [''repo'', ''README''], File (py ''hello'') 420),
      (abs_path [''home''], Dir),
      (abs_path [''home'', ''u''], Dir)]"

text \<open>
  A repository with the scripts \<open>hello\<close> and \<open>world\<close>, and an install directory in which
  \<open>hello\<close> is a symbolic link whose target is gone.
\<close>

definition ex_fs_dangling :: fs where
  "ex_fs_dangling =
     [(abs_path [], Dir),
      (abs_path [''repo''], Dir),
      (abs_path [''repo'', ''bin''], Dir),
      (abs_path [''repo'', ''bin'', ''hello''], File (py ''echo hello'') 420),
      (abs_path [''repo'', ''bin'', ''world''], File (py ''echo world'') 493),
      (abs_path [''home''], Dir),
      (abs_path [''home'', ''u''], Dir),
      (abs_path [''home'', ''u'', ''bin''], Dir),
      (abs_path [''home'', ''u'', ''bin'', ''hello''], Symlink (abs_path [''gone'', ''hello'']))]"

definition ex_args :: args where
  "ex_args = \<lparr>arg_install_dir = abs_path [''home'', ''u'', ''bin''], arg_symlink = False,
              arg_yes = False\<rparr>"

definition ex_world :: "fs \<Rightarrow> pystr list \<Rightarrow> world" where
  "ex_world fs0 answers = \<lparr>files = fs0, stdin = answers, stdout = []\<rparr>"

text \<open>A home directory in which \<open>.profile\<close> is the only startup file.\<close>

definition ex_fs_profile :: fs where
  "ex_fs_profile =
     [(abs_path [], Dir),
      (abs_path [''home''], Dir),
      (abs_path [''home'', ''u''], Dir),
      (abs_path [''home'', ''u'', ''.profile''], File (py ''# profile'' @ [10]) 420)]"

text \<open>
  A repository with the scripts \<open>hello\<close> and \<open>world\<close>, and an install directory that
  already holds a file \<open>world\<close>.
\<close>

definition ex_fs_overwrite :: fs where
  "ex_fs_overwrite =
     [(abs_path [], Dir),
      (abs_path [''repo''], Dir),
      (abs_path [''repo'', ''bin''], Dir),
      (abs_path [''repo'', ''bin'', ''hello''], File (py ''echo hello'') 420),
      (abs_path [''repo'', ''bin'', ''world''], File (py ''echo world'') 493),
      (abs_path [''home''], Dir),
      (abs_path [''home'', ''u''], Dir),
      (abs_path [''home'', ''u'', ''bin''], Dir),
      (abs_path [''home'', ''u'', ''bin'', ''world''], File (py ''old'') 384)]"

text \<open>The first half of a turn: the destination is cleared, or the turn fails.\<close>

definition clear_destination :: "fs \<Rightarrow> Path \<Rightarrow> fs res" where
  "clear_destination fs p =
     (if destination_exists fs p
      then (if is_dir fs p \<and> \<not> is_symlink fs p
            then Inl (IsADirectoryError
                        (py ''Cannot replace directory with script file: '' @ str_of_path p))
            else unlink fs p)
      else Inr fs)"

text \<open>
  The scripts \<open>a\<close>, \<open>b\<close> and \<open>c\<close>, and an install directory in which \<open>b\<close> is a
  directory.
\<close>

definition ex_fs_blocked :: fs where
  "ex_fs_blocked =
     [(abs_path [], Dir),
      (abs_path [''repo''], Dir),
      (abs_path [''repo'', ''bin''], Dir),
      (abs_path [''repo'', ''bin'', ''a''], File (py ''echo a'') 420),
      (abs_path [''repo'', ''bin'', ''b''], File (py ''echo b'') 420),
      (abs_path [''repo'', ''bin'', ''c''], File (py ''echo c'') 420),
      (abs_path [''home''], Dir),
      (abs_path [''home'', ''u''], Dir),
      (abs_path [''home'', ''u'', ''bin''], Dir),
      (abs_path [''home'', ''u'', ''bin'', ''b''], Dir)]"

definition ex_args_yes :: args where
  "ex_args_yes = \<lparr>arg_install_dir = abs_path [''home'', ''u'', ''bin''], arg_symlink = False,
                  arg_yes = True\<rparr>"

text \<open>An install directory with a double quote in its name, and the target detected for it.\<close>

definition ex_quote_dir :: Path where
  "ex_quote_dir = Path True [py ''opt'', py ''a'' @ [34] @ py ''b'']"

definition ex_quote_target :: PathUpdateTarget where
  "ex_quote_target =
     \<lparr>shell_name = py ''zsh'', rc_file = abs_path [''home'', ''u'', ''.zshrc''],
      path_line = export_line (py ''/opt/a'' @ [92, 34] @ py ''b'')\<rparr>"

text \<open>The block for that target, and the filesystem after it has been appended once.\<close>

definition ex_quote_block :: pystr where
  "ex_quote_block = PATH_UPDATE_MARKER @ [10] @ path_line ex_quote_target @ [10]"

definition ex_fs_quote_after :: fs where
  "ex_fs_quote_after =
     (abs_path [''home'', ''u'', ''.zshrc''], File ex_quote_block 420) # ex_fs_profile"

text \<open>
  The naming rule in the words of the specification: groups of lowercase letters and digits
  joined by single hyphens, then at most one extension of a dot and lowercase letters and
  digits, and nothing else. It is the pattern of the source without its \<open>$\<close>, matched
  against the whole name.
\<close>

definition spec_name_pattern :: rx where
  "spec_name_pattern =
     Seq (Plus lower_alnum)
       (Seq (Star (Seq (Chr 45) (Plus lower_alnum)))
         (Opt (Seq (Chr 46) (Plus lower_alnum))))"

definition spec_name_ok :: "pystr \<Rightarrow> bool" where
  "spec_name_ok s = re_match spec_name_pattern s"

text \<open>A repository whose only script has a name that ends in a newline: \<open>foo\n\<close>.\<close>

definition ex_fs_newline :: fs where
  "ex_fs_newline =
     [(abs_path [], Dir),
      (abs_path [''repo''], Dir),
      (abs_path [''repo'', ''bin''], Dir),
      (Path True [py ''repo'', py ''bin'', py ''foo'' @ [10]], File (py ''echo foo'') 493),
      (abs_path [''home''], Dir),
      (abs_path [''home'', ''u''], Dir)]"

text \<open>A repository whose \<open>bin\<close> is a symbolic link to the directory of the scripts.\<close>

definition ex_fs_linked_bin :: fs where
  "ex_fs_linked_bin =
     [(abs_path [], Dir),
      (abs_path [''repo''], Dir),
      (abs_path [''repo'', ''bin''], Symlink (abs_path [''repo'', ''scripts''])),
      (abs_path [''repo'', ''scripts''], Dir),
      (abs_path [''repo'', ''scripts'', ''foo-bar''], File (py ''echo foo'') 493),
      (abs_path [''repo'', ''scripts'', ''BadName''], File (py ''echo bad'') 493)]"

text \<open>The language of a regular expression.\<close>

definition conc :: "pystr set \<Rightarrow> pystr set \<Rightarrow> pystr set" where
  "conc A B = {u @ v | u v. u \<in> A \<and> v \<in> B}"

inductive_set star :: "pystr set \<Rightarrow> pystr set" for A :: "pystr set" where
  star_empty: "[] \<in> star A"
| star_step: "u \<in> A \<Longrightarrow> v \<in> star A \<Longrightarrow> u @ v \<in> star A"

fun lang :: "rx \<Rightarrow> pystr set" where
  "lang Empty = {}"
| "lang Eps = {[]}"
| "lang (Chr c) = {[c]}"
| "lang (Rng a b) = {[c] | c. a \<le> c \<and> c \<le> b}"
| "lang (Alt r s) = lang r \<union> lang s"
| "lang (Seq r s) = conc (lang r) (lang s)"
| "lang (Star r) = star (lang r)"

section \<open>Discovery\<close>

lemma discover_loop_eq:
  "discover_loop fs ps v i =
     (v @ filter (\<lambda>p. is_file fs p \<and> \<not> startswith (name p) (py ''.'') \<and>
                         re_match SCRIPT_NAME_PATTERN (name p)) ps,
      i @ filter (\<lambda>p. is_file fs p \<and> \<not> startswith (name p) (py ''.'') \<and>
                         \<not> re_match SCRIPT_NAME_PATTERN (name p)) ps)"
  by (induction ps arbitrary: v i) auto

lemma common_prefix_le:
  fixes a b :: "'a::linorder"
  shows "k @ [a] \<le> k @ [b] \<longleftrightarrow> a \<le> b"
  by (induction k) auto

lemma iterdir_member:
  "p \<in> set (iterdir fs d) \<longleftrightarrow>
     (\<exists>t. final_path fs d = Some t \<and> p \<in> fst ` set fs \<and> parts p \<noteq> [] \<and> parent p = t)"
  by (auto simp: iterdir_def split: option.splits)

lemma path_key_child:
  assumes "parts p \<noteq> []" "parent p = d"
  shows "path_key p = path_key d @ [name p]"
proof -
  from assms have "parts p = parts d @ [name p]" "absolute p = absolute d"
    by (auto simp: parent_def name_def)
  then show ?thesis by (simp add: path_key_def)
qed

lemma sorted_names_of_children:
  assumes "sorted (map path_key xs)" "set xs \<subseteq> set (iterdir fs d)"
  shows "sorted (map name xs)"
proof (cases "final_path fs d")
  case None
  with assms(2) have "xs = []" by (simp add: iterdir_def)
  then show ?thesis by simp
next
  case (Some t)
  have eq: "map path_key xs = map (\<lambda>p. path_key t @ [name p]) xs"
    using assms(2) Some by (auto simp: iterdir_member path_key_child)
  have "sorted (map (\<lambda>p. path_key t @ [name p]) xs)"
    using assms(1) eq by simp
  then show ?thesis
    by (simp add: sorted_map common_prefix_le)
qed

text \<open>
  What discovery does with the entries of the source directory, with the pattern matched
  as \<open>re.match\<close> does it: a regular file (for \<open>is_file\<close>, which follows a symbolic
  link) that is not hidden is in the valid list when \<open>re.match\<close> accepts its name and in
  the invalid list when it does not; a hidden entry and an entry that is not a regular
  file is in neither list. No entry is in both, and both lists are sorted by name.
\<close>

theorem discovery_classification:
  assumes "is_dir fs (joinpath repo_root (py ''bin''))"
    and "discover_source_scripts fs repo_root = (bin_dir, valid, invalid)"
  shows "(\<forall>p \<in> set (iterdir fs bin_dir).
            (is_file fs p \<and> \<not> startswith (name p) (py ''.'') \<and>
               re_match SCRIPT_NAME_PATTERN (name p) \<longrightarrow> p \<in> set valid) \<and>
            (is_file fs p \<and> \<not> startswith (name p) (py ''.'') \<and>
               \<not> re_match SCRIPT_NAME_PATTERN (name p) \<longrightarrow> p \<in> set invalid) \<and>
            (startswith (name p) (py ''.'') \<or> \<not> is_file fs p \<longrightarrow>
               p \<notin> set valid \<and> p \<notin> set invalid)) \<and>
         set valid \<inter> set invalid = {} \<and>
         sorted (map name valid) \<and> sorted (map name invalid)"
proof -
  let ?entries = "sort_key path_key (iterdir fs bin_dir)"
  from assms have lists: "(valid, invalid) = discover_loop fs ?entries [] []"
    by (auto simp: discover_source_scripts_def Let_def)
  from lists have v: "valid = filter (\<lambda>p. is_file fs p \<and> \<not> startswith (name p) (py ''.'') \<and>
                         re_match SCRIPT_NAME_PATTERN (name p)) ?entries"
    and i: "invalid = filter (\<lambda>p. is_file fs p \<and> \<not> startswith (name p) (py ''.'') \<and>
                         \<not> re_match SCRIPT_NAME_PATTERN (name p)) ?entries"
    by (simp_all add: discover_loop_eq)
  have srt: "sorted (map path_key ?entries)" by (rule sorted_sort_key)
  have "sorted (map path_key valid)" "sorted (map path_key invalid)"
    unfolding v i using srt by (rule sorted_filter)+
  moreover have "set valid \<subseteq> set (iterdir fs bin_dir)" "set invalid \<subseteq> set (iterdir fs bin_dir)"
    by (auto simp: v i)
  ultimately have "sorted (map name valid)" "sorted (map name invalid)"
    by (auto intro: sorted_names_of_children)
  moreover have "\<forall>p \<in> set (iterdir fs bin_dir).
            (is_file fs p \<and> \<not> startswith (name p) (py ''.'') \<and>
               re_match SCRIPT_NAME_PATTERN (name p) \<longrightarrow> p \<in> set valid) \<and>
            (is_file fs p \<and> \<not> startswith (name p) (py ''.'') \<and>
               \<not> re_match SCRIPT_NAME_PATTERN (name p) \<longrightarrow> p \<in> set invalid) \<and>
            (startswith (name p) (py ''.'') \<or> \<not> is_file fs p \<longrightarrow>
               p \<notin> set valid \<and> p \<notin> set invalid)"
    by (auto simp: v i)
  moreover have "set valid \<inter> set invalid = {}"
    by (auto simp: v i)
  ultimately show ?thesis by blast
qed

lemma discovery_classification_example:
  "is_dir ex_fs_badname (joinpath (abs_path [''repo'']) (py ''bin'')) \<and>
   discover_source_scripts ex_fs_badname (abs_path [''repo'']) =
     (abs_path [''repo'', ''bin''],
      [abs_path [''repo'', ''bin'', ''baz.sh''], abs_path [''repo'', ''bin'', ''foo-bar'']],
      [abs_path [''repo'', ''bin'', ''BadName'']]) \<and>
   abs_path [''repo'', ''bin'', ''.hidden''] \<in> set (iterdir ex_fs_badname (abs_path [''repo'', ''bin''])) \<and>
   abs_path [''repo'', ''bin'', ''.hidden''] \<notin>
     set [abs_path [''repo'', ''bin'', ''baz.sh''], abs_path [''repo'', ''bin'', ''foo-bar'']] \<and>
   sorted (map name [abs_path [''repo'', ''bin'', ''baz.sh''], abs_path [''repo'', ''bin'', ''foo-bar'']])"
proof -
  have h1: "is_dir ex_fs_badname (joinpath (abs_path [''repo'']) (py ''bin''))"
    by code_simp
  have h2: "discover_source_scripts ex_fs_badname (abs_path [''repo'']) =
     (abs_path [''repo'', ''bin''],
      [abs_path [''repo'', ''bin'', ''baz.sh''], abs_path [''repo'', ''bin'', ''foo-bar'']],
      [abs_path [''repo'', ''bin'', ''BadName'']])"
    by code_simp
  have h3: "abs_path [''repo'', ''bin'', ''.hidden''] \<in> set (iterdir ex_fs_badname (abs_path [''repo'', ''bin'']))"
    by code_simp
  have h4: "startswith (name (abs_path [''repo'', ''bin'', ''.hidden''])) (py ''.'')"
    by code_simp
  from discovery_classification [OF h1 h2] h3 h4 h1 h2 show ?thesis
    by blast
qed

section \<open>Output and the filesystem\<close>

lemma files_print [simp]: "files (print w s) = files w"
  by (simp add: print_def)

lemma stdout_print [simp]: "stdout (print w s) = stdout w @ [s]"
  by (simp add: print_def)

lemma stdin_print [simp]: "stdin (print w s) = stdin w"
  by (simp add: print_def)

lemma files_print_each [simp]: "files (print_each w ls) = files w"
  unfolding print_each_def by (induction ls arbitrary: w) simp_all

lemma stdout_print_each [simp]: "stdout (print_each w ls) = stdout w @ ls"
  unfolding print_each_def by (induction ls arbitrary: w) simp_all

lemma stdin_print_each [simp]: "stdin (print_each w ls) = stdin w"
  unfolding print_each_def by (induction ls arbitrary: w) simp_all

section \<open>Existence\<close>

lemma follow_not_symlink:
  assumes "\<And>t. map_of fs p \<noteq> Some (Symlink t)"
  shows "follow (Suc n) fs p = Some p"
  using assms by (auto split: option.splits node.splits)

lemma stat_File: "lstat fs p = Some (File c m) \<Longrightarrow> stat fs p = Some (File c m)"
  by (simp add: stat_def final_path_def lstat_def numeral_eq_Suc)

lemma stat_Dir: "lstat fs p = Some Dir \<Longrightarrow> stat fs p = Some Dir"
  by (simp add: stat_def final_path_def lstat_def numeral_eq_Suc)

lemma stat_missing: "lstat fs p = None \<Longrightarrow> stat fs p = None"
  by (simp add: stat_def final_path_def lstat_def numeral_eq_Suc)

lemma final_path_missing: "lstat fs p = None \<Longrightarrow> final_path fs p = Some p"
  by (simp add: final_path_def lstat_def numeral_eq_Suc)

lemma final_path_File: "lstat fs p = Some (File c m) \<Longrightarrow> final_path fs p = Some p"
  by (simp add: final_path_def lstat_def numeral_eq_Suc)

lemma final_path_Dir: "lstat fs p = Some Dir \<Longrightarrow> final_path fs p = Some p"
  by (simp add: final_path_def lstat_def numeral_eq_Suc)

lemma destination_exists_iff: "destination_exists fs p \<longleftrightarrow> lstat fs p \<noteq> None"
proof (cases "lstat fs p")
  case None
  then show ?thesis
    by (simp add: destination_exists_def exists_def is_symlink_def stat_missing)
next
  case (Some n)
  then show ?thesis
    by (cases n) (simp_all add: destination_exists_def exists_def is_symlink_def stat_File stat_Dir)
qed

text \<open>
  Claim C9. The existence test behind the overwrite list and behind the removal before an
  install holds for every path that is in the filesystem as a file, a directory or a
  symbolic link, a link with no target included; such a destination is in the overwrite
  list.
\<close>

theorem destination_exists_counts_dangling:
  assumes "lstat fs path = Some n"
  shows "destination_exists fs path \<and>
         (\<forall>source_scripts d s. s \<in> set source_scripts \<and> path = joinpath d (name s) \<longrightarrow>
            path \<in> set (overwrite_paths_of fs source_scripts d))"
  using assms by (auto simp: destination_exists_iff overwrite_paths_of_def)

text \<open>
  Claim C10. When the repository root has no \<open>bin\<close> directory, discovery returns two
  empty lists and raises nothing; \<open>main\<close> prints that there is nothing to install and
  returns 0, and the filesystem is as it was.
\<close>

theorem missing_source_directory:
  assumes "\<not> is_dir (files w) (joinpath (detect_repo_root (files w) (program_dir os)) (py ''bin''))"
    and "resolve os (files w) (arg_install_dir a) = Inr d"
  shows "discover_source_scripts (files w) (detect_repo_root (files w) (program_dir os)) =
           (joinpath (detect_repo_root (files w) (program_dir os)) (py ''bin''), [], []) \<and>
         main os a w =
           (Inr 0,
            print w (py ''No installable scripts found in '' @
                     str_of_path (joinpath (detect_repo_root (files w) (program_dir os)) (py ''bin'')) @
                     py ''.'')) \<and>
         exit_status (fst (main os a w)) = 0 \<and>
         files (snd (main os a w)) = files w"
proof -
  have disc: "discover_source_scripts (files w) (detect_repo_root (files w) (program_dir os)) =
           (joinpath (detect_repo_root (files w) (program_dir os)) (py ''bin''), [], [])"
    using assms(1) by (simp add: discover_source_scripts_def)
  then have m: "main os a w =
           (Inr 0,
            print w (py ''No installable scripts found in '' @
                     str_of_path (joinpath (detect_repo_root (files w) (program_dir os)) (py ''bin'')) @
                     py ''.''))"
    using assms(2) by (simp add: main_def)
  show ?thesis using disc m by simp
qed

text \<open>
  Claim C2. When discovery returns a list of invalid names that is not empty, \<open>main\<close>
  prints those names, returns 2 and leaves the filesystem as it was: no directory is
  made and nothing is installed, whatever valid scripts there are.
\<close>

theorem invalid_names_gate:
  assumes "resolve os (files w) (arg_install_dir a) = Inr d"
    and "discover_source_scripts (files w) (detect_repo_root (files w) (program_dir os)) =
           (source_dir, source_scripts, invalid_script_names)"
    and "invalid_script_names \<noteq> []"
  shows "fst (main os a w) = Inr 2 \<and>
         exit_status (fst (main os a w)) = 2 \<and>
         files (snd (main os a w)) = files w \<and>
         stdin (snd (main os a w)) = stdin w \<and>
         stdout (snd (main os a w)) =
           stdout w @
           [py ''The following bin scripts do not follow lowercase kebab-case naming:''] @
           map (\<lambda>path. py ''  - '' @ name path) invalid_script_names @
           [py ''Rename these files before installing.'']"
  using assms by (simp add: main_def)

theorem destination_exists_counts_dangling_witness:
  "lstat ex_fs_dangling (abs_path [''home'', ''u'', ''bin'', ''hello'']) =
     Some (Symlink (abs_path [''gone'', ''hello''])) \<and>
   \<not> exists ex_fs_dangling (abs_path [''home'', ''u'', ''bin'', ''hello'']) \<and>
   destination_exists ex_fs_dangling (abs_path [''home'', ''u'', ''bin'', ''hello'']) \<and>
   abs_path [''home'', ''u'', ''bin'', ''hello''] \<in>
     set (overwrite_paths_of ex_fs_dangling
            [abs_path [''repo'', ''bin'', ''hello''], abs_path [''repo'', ''bin'', ''world'']]
            (abs_path [''home'', ''u'', ''bin'']))"
proof -
  have h: "lstat ex_fs_dangling (abs_path [''home'', ''u'', ''bin'', ''hello'']) =
     Some (Symlink (abs_path [''gone'', ''hello'']))"
    by code_simp
  have gone: "\<not> exists ex_fs_dangling (abs_path [''home'', ''u'', ''bin'', ''hello''])"
    by code_simp
  have j: "abs_path [''home'', ''u'', ''bin'', ''hello''] =
           joinpath (abs_path [''home'', ''u'', ''bin'']) (name (abs_path [''repo'', ''bin'', ''hello'']))"
    by code_simp
  from destination_exists_counts_dangling [OF h] j h gone show ?thesis
    by auto
qed

theorem missing_source_directory_witness:
  "\<not> is_dir (files (ex_world ex_fs_nobin []))
       (joinpath (detect_repo_root (files (ex_world ex_fs_nobin [])) (program_dir ex_os)) (py ''bin'')) \<and>
   resolve ex_os (files (ex_world ex_fs_nobin [])) (arg_install_dir ex_args) =
     Inr (abs_path [''home'', ''u'', ''bin'']) \<and>
   main ex_os ex_args (ex_world ex_fs_nobin []) =
     (Inr 0, \<lparr>files = ex_fs_nobin, stdin = [],
              stdout = [py ''No installable scripts found in /repo/bin.'']\<rparr>)"
proof -
  have h1: "\<not> is_dir (files (ex_world ex_fs_nobin []))
       (joinpath (detect_repo_root (files (ex_world ex_fs_nobin [])) (program_dir ex_os)) (py ''bin''))"
    by code_simp
  have h2: "resolve ex_os (files (ex_world ex_fs_nobin [])) (arg_install_dir ex_args) =
     Inr (abs_path [''home'', ''u'', ''bin''])"
    by (simp add: ex_os_def ex_args_def)
  have out: "print (ex_world ex_fs_nobin [])
           (py ''No installable scripts found in '' @
            str_of_path (joinpath (detect_repo_root (files (ex_world ex_fs_nobin [])) (program_dir ex_os))
                           (py ''bin'')) @ py ''.'') =
         \<lparr>files = ex_fs_nobin, stdin = [], stdout = [py ''No installable scripts found in /repo/bin.'']\<rparr>"
    by code_simp
  from missing_source_directory [OF h1 h2] out h1 h2 show ?thesis
    by simp
qed

theorem invalid_names_gate_witness:
  "resolve ex_os (files (ex_world ex_fs_badname [])) (arg_install_dir ex_args) =
     Inr (abs_path [''home'', ''u'', ''bin'']) \<and>
   discover_source_scripts (files (ex_world ex_fs_badname []))
       (detect_repo_root (files (ex_world ex_fs_badname [])) (program_dir ex_os)) =
     (abs_path [''repo'', ''bin''],
      [abs_path [''repo'', ''bin'', ''baz.sh''], abs_path [''repo'', ''bin'', ''foo-bar'']],
      [abs_path [''repo'', ''bin'', ''BadName'']]) \<and>
   exit_status (fst (main ex_os ex_args (ex_world ex_fs_badname []))) = 2 \<and>
   files (snd (main ex_os ex_args (ex_world ex_fs_badname []))) = ex_fs_badname \<and>
   stdout (snd (main ex_os ex_args (ex_world ex_fs_badname []))) =
     [py ''The following bin scripts do not follow lowercase kebab-case naming:'',
      py ''  - BadName'',
      py ''Rename these files before installing.'']"
proof -
  have h1: "resolve ex_os (files (ex_world ex_fs_badname [])) (arg_install_dir ex_args) =
     Inr (abs_path [''home'', ''u'', ''bin''])"
    by (simp add: ex_os_def ex_args_def)
  have h2: "discover_source_scripts (files (ex_world ex_fs_badname []))
       (detect_repo_root (files (ex_world ex_fs_badname [])) (program_dir ex_os)) =
     (abs_path [''repo'', ''bin''],
      [abs_path [''repo'', ''bin'', ''baz.sh''], abs_path [''repo'', ''bin'', ''foo-bar'']],
      [abs_path [''repo'', ''bin'', ''BadName'']])"
    by code_simp
  have h3: "[abs_path [''repo'', ''bin'', ''BadName'']] \<noteq> []" by simp
  have nm: "name (abs_path [''repo'', ''bin'', ''BadName'']) = py ''BadName''"
    by code_simp
  have fl: "files (ex_world ex_fs_badname []) = ex_fs_badname"
    and so: "stdout (ex_world ex_fs_badname []) = []"
    by (simp_all add: ex_world_def)
  from invalid_names_gate [OF h1 h2 h3] h1 h2 nm fl so show ?thesis
    by (simp add: py_def)
qed

section \<open>The PATH advisor\<close>

lemma str_of_relative_path:
  "rest \<noteq> [] \<Longrightarrow> str_of_path (Path False rest) = join (py ''/'') rest"
  by (simp add: str_of_path_def)

text \<open>
  Claim C7. With the install directory and the home directory resolved, the rendered value
  is \<open>$HOME\<close> when the two are equal, \<open>$HOME/\<close> and the remaining components joined by
  \<open>/\<close> when the install directory lies strictly below the home directory, and the
  absolute path of the install directory otherwise.
\<close>

theorem path_rendering:
  assumes "resolve os fs path = Inr normalized_path"
    and "resolve os fs home_dir = Inr normalized_home"
  shows "(normalized_path = normalized_home \<longrightarrow>
            format_posix_path_value os fs path home_dir = Inr (py ''$HOME'')) \<and>
         (\<forall>rest. rest \<noteq> [] \<and>
                 normalized_path = Path (absolute normalized_home) (parts normalized_home @ rest) \<longrightarrow>
            format_posix_path_value os fs path home_dir =
              Inr (py ''$HOME/'' @ join (py ''/'') rest)) \<and>
         (\<not> (absolute normalized_path = absolute normalized_home \<and>
              prefix (parts normalized_home) (parts normalized_path)) \<longrightarrow>
            format_posix_path_value os fs path home_dir = Inr (str_of_path normalized_path))"
proof (intro conjI allI impI)
  assume "normalized_path = normalized_home"
  then show "format_posix_path_value os fs path home_dir = Inr (py ''$HOME'')"
    using assms by (simp add: format_posix_path_value_def)
next
  fix rest
  assume r: "rest \<noteq> [] \<and>
     normalized_path = Path (absolute normalized_home) (parts normalized_home @ rest)"
  then have ne: "normalized_path \<noteq> normalized_home"
    by (cases normalized_home) auto
  from r have rel: "relative_to normalized_path normalized_home = Some (Path False rest)"
    by (simp add: relative_to_def)
  show "format_posix_path_value os fs path home_dir = Inr (py ''$HOME/'' @ join (py ''/'') rest)"
    using assms ne rel r by (simp add: format_posix_path_value_def str_of_relative_path)
next
  assume n: "\<not> (absolute normalized_path = absolute normalized_home \<and>
              prefix (parts normalized_home) (parts normalized_path))"
  then have ne: "normalized_path \<noteq> normalized_home" by auto
  from n have rel: "relative_to normalized_path normalized_home = None"
    by (simp add: relative_to_def)
  show "format_posix_path_value os fs path home_dir = Inr (str_of_path normalized_path)"
    using assms ne rel by (simp add: format_posix_path_value_def)
qed

theorem path_rendering_witness:
  "resolve ex_os [] (abs_path [''home'', ''u'', ''bin'']) = Inr (abs_path [''home'', ''u'', ''bin'']) \<and>
   resolve ex_os [] (abs_path [''home'', ''u'']) = Inr (abs_path [''home'', ''u'']) \<and>
   resolve ex_os [] (abs_path [''opt'', ''tools'']) = Inr (abs_path [''opt'', ''tools'']) \<and>
   format_posix_path_value ex_os [] (abs_path [''home'', ''u'', ''bin'']) (abs_path [''home'', ''u'']) =
     Inr (py ''$HOME/bin'') \<and>
   format_posix_path_value ex_os [] (abs_path [''home'', ''u'']) (abs_path [''home'', ''u'']) =
     Inr (py ''$HOME'') \<and>
   format_posix_path_value ex_os [] (abs_path [''opt'', ''tools'']) (abs_path [''home'', ''u'']) =
     Inr (py ''/opt/tools'')"
proof -
  have r1: "resolve ex_os [] (abs_path [''home'', ''u'', ''bin'']) = Inr (abs_path [''home'', ''u'', ''bin''])"
    and r2: "resolve ex_os [] (abs_path [''home'', ''u'']) = Inr (abs_path [''home'', ''u''])"
    and r3: "resolve ex_os [] (abs_path [''opt'', ''tools'']) = Inr (abs_path [''opt'', ''tools''])"
    by (simp_all add: ex_os_def)
  have under: "[py ''bin''] \<noteq> [] \<and>
      abs_path [''home'', ''u'', ''bin''] =
        Path (absolute (abs_path [''home'', ''u''])) (parts (abs_path [''home'', ''u'']) @ [py ''bin''])"
    by (simp add: abs_path_def)
  have outside: "\<not> (absolute (abs_path [''opt'', ''tools'']) = absolute (abs_path [''home'', ''u'']) \<and>
      prefix (parts (abs_path [''home'', ''u''])) (parts (abs_path [''opt'', ''tools''])))"
    by (simp add: abs_path_def py_def)
  have s1: "py ''$HOME/'' @ join (py ''/'') [py ''bin''] = py ''$HOME/bin''"
    by (simp add: py_def)
  have s2: "str_of_path (abs_path [''opt'', ''tools'']) = py ''/opt/tools''"
    by (simp add: str_of_path_def abs_path_def py_def)
  from path_rendering [OF r1 r2] under s1
  have a: "format_posix_path_value ex_os [] (abs_path [''home'', ''u'', ''bin'']) (abs_path [''home'', ''u'']) =
     Inr (py ''$HOME/bin'')"
    by metis
  from path_rendering [OF r2 r2]
  have b: "format_posix_path_value ex_os [] (abs_path [''home'', ''u'']) (abs_path [''home'', ''u'']) =
     Inr (py ''$HOME'')"
    by blast
  from path_rendering [OF r3 r2] outside s2
  have c: "format_posix_path_value ex_os [] (abs_path [''opt'', ''tools'']) (abs_path [''home'', ''u'']) =
     Inr (py ''/opt/tools'')"
    by metis
  from a b c r1 r2 r3 show ?thesis by blast
qed

text \<open>
  Claim C8. The configuration file of the target is \<open>~/.zshrc\<close> for zsh; for bash the
  first of \<open>~/.bashrc\<close>, \<open>~/.bash_profile\<close> and \<open>~/.profile\<close> that exists, and
  \<open>~/.bashrc\<close> when none does; \<open>~/.config/fish/config.fish\<close> for fish; and
  \<open>~/.profile\<close> for every other value of \<open>SHELL\<close> and when it is not set. The shell is
  the last component of \<open>SHELL\<close> in lower case.
\<close>

theorem shell_family_rc_file:
  assumes "detect_path_update_target os fs install_dir = Inr target"
    and "sh = lower (name (Path_of_str (case env_SHELL os of None \<Rightarrow> [] | Some v \<Rightarrow> v)))"
  shows "(sh = py ''zsh'' \<longrightarrow> rc_file target = joinpath (home os) (py ''.zshrc'')) \<and>
         (sh = py ''bash'' \<longrightarrow>
            rc_file target =
              (if exists fs (joinpath (home os) (py ''.bashrc''))
               then joinpath (home os) (py ''.bashrc'')
               else if exists fs (joinpath (home os) (py ''.bash_profile''))
               then joinpath (home os) (py ''.bash_profile'')
               else if exists fs (joinpath (home os) (py ''.profile''))
               then joinpath (home os) (py ''.profile'')
               else joinpath (home os) (py ''.bashrc''))) \<and>
         (sh = py ''fish'' \<longrightarrow>
            rc_file target =
              joinpath (joinpath (joinpath (home os) (py ''.config'')) (py ''fish''))
                (py ''config.fish'')) \<and>
         (sh \<noteq> py ''zsh'' \<and> sh \<noteq> py ''bash'' \<and> sh \<noteq> py ''fish'' \<longrightarrow>
            rc_file target = joinpath (home os) (py ''.profile'')) \<and>
         (env_SHELL os = None \<longrightarrow> rc_file target = joinpath (home os) (py ''.profile''))"
proof -
  obtain v where v: "format_posix_path_value os fs install_dir (home os) = Inr v"
    using assms(1) by (auto simp: detect_path_update_target_def Let_def split: sum.splits)
  have bash: "choose_bash_rc_file fs (home os) =
              (if exists fs (joinpath (home os) (py ''.bashrc''))
               then joinpath (home os) (py ''.bashrc'')
               else if exists fs (joinpath (home os) (py ''.bash_profile''))
               then joinpath (home os) (py ''.bash_profile'')
               else if exists fs (joinpath (home os) (py ''.profile''))
               then joinpath (home os) (py ''.profile'')
               else joinpath (home os) (py ''.bashrc''))"
    by (simp add: choose_bash_rc_file_def Let_def)
  have distinct_names: "py ''zsh'' \<noteq> py ''bash''" "py ''zsh'' \<noteq> py ''fish''" "py ''bash'' \<noteq> py ''fish''"
    "py ''bash'' \<noteq> py ''zsh''" "py ''fish'' \<noteq> py ''zsh''" "py ''fish'' \<noteq> py ''bash''"
    "[] \<noteq> py ''zsh''" "[] \<noteq> py ''bash''" "[] \<noteq> py ''fish''"
    by (simp_all add: py_def)
  have unset: "lower (name (Path_of_str [])) = []"
    by (simp add: Path_of_str_def name_def lower_def split_def startswith_def py_def)
  have rc: "rc_file target =
                   (if sh = py ''zsh'' then joinpath (home os) (py ''.zshrc'')
                    else if sh = py ''bash'' then choose_bash_rc_file fs (home os)
                    else if sh = py ''fish''
                    then joinpath (joinpath (joinpath (home os) (py ''.config'')) (py ''fish''))
                            (py ''config.fish'')
                    else joinpath (home os) (py ''.profile''))"
    using assms v by (auto simp: detect_path_update_target_def Let_def split: if_splits)
  have none: "env_SHELL os = None \<Longrightarrow> sh = []"
    using assms(2) unset by simp
  show ?thesis
    using distinct_names bash none by (auto simp: rc)
qed

theorem shell_family_rc_file_witness:
  "detect_path_update_target ex_os ex_fs_profile (abs_path [''home'', ''u'', ''bin'']) =
     Inr \<lparr>shell_name = py ''zsh'', rc_file = abs_path [''home'', ''u'', ''.zshrc''],
          path_line = py ''export PATH=\"$HOME/bin:$PATH\"''\<rparr> \<and>
   detect_path_update_target (ex_os\<lparr>env_SHELL := Some (py ''/usr/bin/bash'')\<rparr>) ex_fs_profile
       (abs_path [''home'', ''u'', ''bin'']) =
     Inr \<lparr>shell_name = py ''bash'', rc_file = abs_path [''home'', ''u'', ''.profile''],
          path_line = py ''export PATH=\"$HOME/bin:$PATH\"''\<rparr> \<and>
   rc_file \<lparr>shell_name = py ''zsh'', rc_file = abs_path [''home'', ''u'', ''.zshrc''],
          path_line = py ''export PATH=\"$HOME/bin:$PATH\"''\<rparr> =
     joinpath (home ex_os) (py ''.zshrc'') \<and>
   \<not> exists ex_fs_profile (joinpath (home ex_os) (py ''.bashrc'')) \<and>
   \<not> exists ex_fs_profile (joinpath (home ex_os) (py ''.bash_profile'')) \<and>
   exists ex_fs_profile (joinpath (home ex_os) (py ''.profile'')) \<and>
   rc_file \<lparr>shell_name = py ''bash'', rc_file = abs_path [''home'', ''u'', ''.profile''],
          path_line = py ''export PATH=\"$HOME/bin:$PATH\"''\<rparr> =
     joinpath (home ex_os) (py ''.profile'')"
proof -
  have z: "detect_path_update_target ex_os ex_fs_profile (abs_path [''home'', ''u'', ''bin'']) =
     Inr \<lparr>shell_name = py ''zsh'', rc_file = abs_path [''home'', ''u'', ''.zshrc''],
          path_line = py ''export PATH=\"$HOME/bin:$PATH\"''\<rparr>"
    by code_simp
  have zs: "py ''zsh'' =
      lower (name (Path_of_str (case env_SHELL ex_os of None \<Rightarrow> [] | Some v \<Rightarrow> v)))"
    by code_simp
  have b: "detect_path_update_target (ex_os\<lparr>env_SHELL := Some (py ''/usr/bin/bash'')\<rparr>) ex_fs_profile
       (abs_path [''home'', ''u'', ''bin'']) =
     Inr \<lparr>shell_name = py ''bash'', rc_file = abs_path [''home'', ''u'', ''.profile''],
          path_line = py ''export PATH=\"$HOME/bin:$PATH\"''\<rparr>"
    by code_simp
  have bs: "py ''bash'' =
      lower (name (Path_of_str (case env_SHELL (ex_os\<lparr>env_SHELL := Some (py ''/usr/bin/bash'')\<rparr>) of
                                  None \<Rightarrow> [] | Some v \<Rightarrow> v)))"
    by code_simp
  have e1: "\<not> exists ex_fs_profile (joinpath (home ex_os) (py ''.bashrc''))"
    and e2: "\<not> exists ex_fs_profile (joinpath (home ex_os) (py ''.bash_profile''))"
    and e3: "exists ex_fs_profile (joinpath (home ex_os) (py ''.profile''))"
    by code_simp+
  have hm: "home (ex_os\<lparr>env_SHELL := Some (py ''/usr/bin/bash'')\<rparr>) = home ex_os"
    by simp
  from shell_family_rc_file [OF z zs] shell_family_rc_file [OF b bs] z b e1 e2 e3 hm
  show ?thesis by simp
qed

section \<open>Paths in a well-formed filesystem\<close>

lemma split_from_no_sep: "sep \<notin> set s \<Longrightarrow> split_from sep cur s = [cur @ s]"
  by (induction s arbitrary: cur) auto

lemma Path_of_str_component:
  assumes "proper_component c"
  shows "Path_of_str c = Path False [c]"
proof -
  from assms have ne: "c \<noteq> []" and dot: "c \<noteq> py ''.''" and slash: "47 \<notin> set c"
    by (auto simp: proper_component_def)
  from ne slash have "\<not> startswith c (py ''/'')"
    by (cases c) (auto simp: startswith_def py_def)
  moreover from slash have "split c 47 = [c]"
    by (simp add: split_def split_from_no_sep)
  ultimately show ?thesis using ne dot
    by (simp add: Path_of_str_def)
qed

lemma joinpath_component:
  "proper_component c \<Longrightarrow> joinpath d c = Path (absolute d) (parts d @ [c])"
  by (simp add: joinpath_def Path_of_str_component)

lemma parent_joinpath_component:
  "proper_component c \<Longrightarrow> parent (joinpath d c) = d"
  by (simp add: joinpath_component parent_def)

lemma lstat_key: "lstat fs p \<noteq> None \<longleftrightarrow> p \<in> fst ` set fs"
  by (simp add: lstat_def map_of_eq_None_iff)

lemma wf_fs_key:
  assumes "wf_fs fs" "p \<in> fst ` set fs"
  shows "absolute p" "\<forall>c \<in> set (parts p). proper_component c"
    "parts p \<noteq> [] \<Longrightarrow> lstat fs (parent p) = Some Dir"
  using assms by (auto simp: wf_fs_def list_all_iff)

lemma wf_fs_name:
  assumes "wf_fs fs" "p \<in> set (iterdir fs d)"
  shows "proper_component (name p)"
proof -
  from assms(2) have k: "p \<in> fst ` set fs" and ne: "parts p \<noteq> []"
    by (auto simp: iterdir_member)
  from wf_fs_key(2) [OF assms(1) k] ne show ?thesis
    by (simp add: name_def)
qed

lemma discovered_are_entries:
  assumes "discover_source_scripts fs repo_root = (bin_dir, valid, invalid)"
  shows "set valid \<subseteq> set (iterdir fs bin_dir)" "set invalid \<subseteq> set (iterdir fs bin_dir)"
  using assms
  by (auto simp: discover_source_scripts_def Let_def discover_loop_eq split: if_splits)

lemma os_mkdir_existing: "lstat fs p = Some Dir \<Longrightarrow> os_mkdir fs p = Inr fs"
  by (simp add: os_mkdir_def is_dir_def stat_Dir)

lemma mkdir_p_existing: "lstat fs p = Some Dir \<Longrightarrow> mkdir_p fs p = Inr fs"
  by (simp add: mkdir_p.simps [of fs p] os_mkdir_existing)

lemma existing_destination_parent:
  assumes wf: "wf_fs fs"
    and c: "proper_component c"
    and ex: "destination_exists fs (joinpath d c)"
  shows "lstat fs d = Some Dir"
proof -
  from ex have "lstat fs (joinpath d c) \<noteq> None"
    by (simp add: destination_exists_iff)
  then have k: "joinpath d c \<in> fst ` set fs"
    by (simp only: lstat_key)
  have "parts (joinpath d c) \<noteq> []"
    using c by (simp add: joinpath_component)
  from wf_fs_key(3) [OF wf k this] show ?thesis
    using c by (simp add: parent_joinpath_component)
qed

section \<open>Confirmation\<close>

lemma files_confirm_overwrites [simp]:
  "files (snd (confirm_overwrites w ps y)) = files w"
  by (auto simp: confirm_overwrites_def input_def Let_def split: list.splits)

lemma confirm_overwrites_declined:
  assumes "ps \<noteq> []" "\<not> y" "stdin w = response # rest"
    "lower (strip response) \<notin> {py ''y'', py ''yes''}"
  shows "fst (confirm_overwrites w ps y) = Inr False"
  using assms by (simp add: confirm_overwrites_def input_def Let_def)

text \<open>
  Claim C5. In a well-formed filesystem, when some destination is already there, \<open>--yes\<close>
  is not given and the answer read at the prompt is not \<open>y\<close> or \<open>yes\<close> (after \<open>strip\<close>
  and \<open>lower\<close>; the empty answer included), \<open>main\<close> prints that the installation is
  cancelled and returns 1, and the filesystem is as it was.
\<close>

theorem declined_overwrite_aborts:
  assumes wf: "wf_fs (files w)"
    and res: "resolve os (files w) (arg_install_dir a) = Inr d"
    and disc: "discover_source_scripts (files w) (detect_repo_root (files w) (program_dir os)) =
                 (source_dir, source_scripts, [])"
    and ov: "overwrite_paths_of (files w) source_scripts d \<noteq> []"
    and no: "\<not> arg_yes a"
    and inp: "stdin w = response # rest"
    and deny: "lower (strip response) \<notin> {py ''y'', py ''yes''}"
  shows "fst (main os a w) = Inr 1 \<and>
         exit_status (fst (main os a w)) = 1 \<and>
         files (snd (main os a w)) = files w \<and>
         last (stdout (snd (main os a w))) = py ''Installation cancelled.''"
proof -
  from ov obtain s where s: "s \<in> set source_scripts"
    and ex: "destination_exists (files w) (joinpath d (name s))"
    by (auto simp: overwrite_paths_of_def filter_empty_conv)
  from s have ne: "source_scripts \<noteq> []" by auto
  from discovered_are_entries(1) [OF disc] s
  have "s \<in> set (iterdir (files w) source_dir)" by auto
  from wf_fs_name [OF wf this] have "proper_component (name s)" .
  from existing_destination_parent [OF wf this ex]
  have mk: "mkdir_p (files w) d = Inr (files w)"
    by (rule mkdir_p_existing)
  let ?c = "confirm_overwrites w (overwrite_paths_of (files w) source_scripts d) (arg_yes a)"
  have st: "stdin (w\<lparr>files := files w\<rparr>) = response # rest"
    using inp by simp
  have c1: "fst ?c = Inr False"
    using confirm_overwrites_declined [OF ov no inp deny] .
  obtain w2 where c: "?c = (Inr False, w2)"
    using c1 by (cases ?c) auto
  have f2: "files w2 = files w"
    using files_confirm_overwrites [of w "overwrite_paths_of (files w) source_scripts d" "arg_yes a"] c
    by simp
  have "main os a w = (Inr 1, print w2 (py ''Installation cancelled.''))"
    using res disc ne mk c by (simp add: main_def)
  then show ?thesis using f2 by simp
qed

theorem declined_overwrite_aborts_witness:
  "wf_fs (files (ex_world ex_fs_overwrite [[]])) \<and>
   resolve ex_os (files (ex_world ex_fs_overwrite [[]])) (arg_install_dir ex_args) =
     Inr (abs_path [''home'', ''u'', ''bin'']) \<and>
   discover_source_scripts (files (ex_world ex_fs_overwrite [[]]))
       (detect_repo_root (files (ex_world ex_fs_overwrite [[]])) (program_dir ex_os)) =
     (abs_path [''repo'', ''bin''],
      [abs_path [''repo'', ''bin'', ''hello''], abs_path [''repo'', ''bin'', ''world'']], []) \<and>
   overwrite_paths_of (files (ex_world ex_fs_overwrite [[]]))
       [abs_path [''repo'', ''bin'', ''hello''], abs_path [''repo'', ''bin'', ''world'']]
       (abs_path [''home'', ''u'', ''bin'']) \<noteq> [] \<and>
   \<not> arg_yes ex_args \<and>
   stdin (ex_world ex_fs_overwrite [[]]) = [] # [] \<and>
   lower (strip []) \<notin> {py ''y'', py ''yes''} \<and>
   exit_status (fst (main ex_os ex_args (ex_world ex_fs_overwrite [[]]))) = 1 \<and>
   files (snd (main ex_os ex_args (ex_world ex_fs_overwrite [[]]))) = ex_fs_overwrite"
proof -
  have wf: "wf_fs (files (ex_world ex_fs_overwrite [[]]))"
    by code_simp
  have res: "resolve ex_os (files (ex_world ex_fs_overwrite [[]])) (arg_install_dir ex_args) =
     Inr (abs_path [''home'', ''u'', ''bin''])"
    by (simp add: ex_os_def ex_args_def)
  have disc: "discover_source_scripts (files (ex_world ex_fs_overwrite [[]]))
       (detect_repo_root (files (ex_world ex_fs_overwrite [[]])) (program_dir ex_os)) =
     (abs_path [''repo'', ''bin''],
      [abs_path [''repo'', ''bin'', ''hello''], abs_path [''repo'', ''bin'', ''world'']], [])"
    by code_simp
  have ov: "overwrite_paths_of (files (ex_world ex_fs_overwrite [[]]))
       [abs_path [''repo'', ''bin'', ''hello''], abs_path [''repo'', ''bin'', ''world'']]
       (abs_path [''home'', ''u'', ''bin'']) \<noteq> []"
    by code_simp
  have no: "\<not> arg_yes ex_args" by (simp add: ex_args_def)
  have inp: "stdin (ex_world ex_fs_overwrite [[]]) = [] # []" by (simp add: ex_world_def)
  have deny: "lower (strip []) \<notin> {py ''y'', py ''yes''}"
    by (simp add: lower_def strip_def py_def)
  have fl: "files (ex_world ex_fs_overwrite [[]]) = ex_fs_overwrite" by (simp add: ex_world_def)
  from declined_overwrite_aborts [OF wf res disc ov no inp deny] wf res disc ov no inp deny fl
  show ?thesis by simp
qed

section \<open>Updates of the filesystem\<close>

lemma map_of_fs_remove: "map_of (fs_remove fs p) q = (if q = p then None else map_of fs q)"
  unfolding fs_remove_def
  by (induction fs) auto

lemma map_of_fs_put: "map_of (fs_put fs p n) q = (if q = p then Some n else map_of fs q)"
  by (simp add: fs_put_def map_of_fs_remove)

lemma lstat_fs_remove: "lstat (fs_remove fs p) q = (if q = p then None else lstat fs q)"
  by (simp add: lstat_def map_of_fs_remove)

lemma lstat_fs_put: "lstat (fs_put fs p n) q = (if q = p then Some n else lstat fs q)"
  by (simp add: lstat_def map_of_fs_put)

lemma os_mkdir_keeps:
  assumes "os_mkdir fs p = Inr fs1" "lstat fs q = Some n"
  shows "lstat fs1 q = Some n"
  using assms
  by (auto simp: os_mkdir_def lstat_fs_put split: if_splits option.splits node.splits)

lemma mkdir_p_keeps:
  "mkdir_p fs p = Inr fs1 \<Longrightarrow> lstat fs q = Some n \<Longrightarrow> lstat fs1 q = Some n"
proof (induction fs p arbitrary: fs1 rule: mkdir_p.induct)
  case (1 fs p)
  note eq = mkdir_p.simps [of fs p]
  show ?case
  proof (cases "os_mkdir fs p")
    case (Inr fs2)
    with "1.prems" eq have "fs2 = fs1" by simp
    with Inr "1.prems"(2) show ?thesis
      by (auto dest: os_mkdir_keeps)
  next
    case (Inl e)
    show ?thesis
    proof (cases "e = FileNotFoundError \<and> parent p \<noteq> p")
      case False
      with Inl "1.prems" eq show ?thesis
        by (cases e) (auto split: if_splits)
    next
      case True
      with Inl "1.prems"(1) eq obtain fs2 where up: "mkdir_p fs (parent p) = Inr fs2"
        and last: "os_mkdir fs2 p = Inr fs1"
        by (auto split: sum.splits)
      from True have e: "e = FileNotFoundError" and np: "parent p \<noteq> p" by simp_all
      from "1.IH" [OF Inl e np up "1.prems"(2)] have "lstat fs2 q = Some n" .
      with last show ?thesis by (rule os_mkdir_keeps)
    qed
  qed
qed

section \<open>One turn of the install loop\<close>

lemma chmod_after_copy_bits:
  "(S_IFREG OR S_IMODE (S_IFREG OR m) OR S_IXUSR) AND 4095 = S_IMODE m OR S_IXUSR"
proof -
  have a: "S_IFREG AND (4095 :: 32 word) = 0" by (simp add: S_IFREG_def)
  have b: "S_IXUSR AND (4095 :: 32 word) = S_IXUSR" by (simp add: S_IXUSR_def)
  have c: "(m AND 4095) AND (4095 :: 32 word) = m AND 4095"
    by (simp add: and.assoc)
  show ?thesis
    unfolding S_IMODE_def
    by (simp add: bit.conj_disj_distrib2 a b c)
qed

lemma clear_destination_cases:
  "clear_destination fs p =
     (case lstat fs p of
        None \<Rightarrow> Inr fs
      | Some Dir \<Rightarrow> Inl (IsADirectoryError
                           (py ''Cannot replace directory with script file: '' @ str_of_path p))
      | Some n \<Rightarrow> Inr (fs_remove fs p))"
proof (cases "lstat fs p")
  case None
  then show ?thesis by (simp add: clear_destination_def destination_exists_iff)
next
  case (Some n)
  then show ?thesis
    by (cases n)
       (simp_all add: clear_destination_def destination_exists_iff is_dir_def is_symlink_def
          stat_File stat_Dir unlink_def)
qed

lemma clear_destination_result:
  assumes "clear_destination fs p = Inr fs1"
  shows "lstat fs1 p = None" "\<And>q. q \<noteq> p \<Longrightarrow> lstat fs1 q = lstat fs q"
    "fs1 = fs \<or> fs1 = fs_remove fs p"
  using assms
  by (auto simp: clear_destination_cases lstat_fs_remove split: option.splits node.splits)

lemma install_one_unfold:
  "install_one os fs s d lnk =
     (case clear_destination fs (joinpath d (name s)) of
        Inl e \<Rightarrow> (Inl e, fs)
      | Inr fs1 \<Rightarrow>
          if lnk
          then (case resolve os fs1 s of
                  Inl e \<Rightarrow> (Inl e, fs1)
                | Inr target \<Rightarrow>
                    (case symlink_to fs1 (joinpath d (name s)) target of
                       Inl e \<Rightarrow> (Inl e, fs1)
                     | Inr fs2 \<Rightarrow> (Inr (joinpath d (name s)), fs2)))
          else (case copy2 fs1 s (joinpath d (name s)) of
                  Inl e \<Rightarrow> (Inl e, fs1)
                | Inr fs2 \<Rightarrow>
                    (case stat fs2 (joinpath d (name s)) of
                       None \<Rightarrow> (Inl FileNotFoundError, fs2)
                     | Some n \<Rightarrow>
                         (case chmod fs2 (joinpath d (name s)) (st_mode n OR S_IXUSR) of
                            Inl e \<Rightarrow> (Inl e, fs2)
                          | Inr fs3 \<Rightarrow> (Inr (joinpath d (name s)), fs3)))))"
  by (simp add: install_one_def clear_destination_def Let_def)

lemma copy2_fresh:
  assumes "lstat fs p = None" "copy2 fs s p = Inr fs2"
  shows "\<exists>c m. stat fs s = Some (File c m) \<and>
               fs2 = fs_put fs p (File c (S_IMODE (S_IFREG OR m)))"
proof -
  from assms(1) have nd: "\<not> is_dir fs p" and fp: "final_path fs p = Some p"
    by (simp_all add: is_dir_def stat_missing final_path_missing)
  from assms(2) show ?thesis
    unfolding copy2_def Let_def
    using nd fp assms(1)
    by (auto split: option.splits node.splits if_splits)
qed

lemma chmod_file:
  assumes "lstat fs p = Some (File c m)"
  shows "chmod fs p mode = Inr (fs_put fs p (File c (mode AND 4095)))"
  using assms by (simp add: chmod_def final_path_File)

lemma symlink_to_result:
  assumes "symlink_to fs p t = Inr fs2"
  shows "fs2 = fs_put fs p (Symlink t)"
  using assms by (auto simp: symlink_to_def split: if_splits)

text \<open>A turn touches the destination of its script and nothing else.\<close>

lemma install_one_elsewhere:
  assumes "install_one os fs s d lnk = (r, fs')" "q \<noteq> joinpath d (name s)"
  shows "lstat fs' q = lstat fs q"
proof (cases "clear_destination fs (joinpath d (name s))")
  case (Inl e)
  with assms show ?thesis by (simp add: install_one_unfold)
next
  case (Inr fs1)
  note c = clear_destination_result [OF Inr]
  from c(2) assms(2) have k1: "lstat fs1 q = lstat fs q" by simp
  show ?thesis
  proof (cases lnk)
    case True
    with assms Inr k1 show ?thesis
      by (auto simp: install_one_unfold lstat_fs_put split: sum.splits dest!: symlink_to_result)
  next
    case False
    show ?thesis
    proof (cases "copy2 fs1 s (joinpath d (name s))")
      case (Inl e)
      with assms Inr False k1 show ?thesis by (simp add: install_one_unfold)
    next
      case cp: (Inr fs2)
      from copy2_fresh [OF c(1) cp] obtain c0 m where
        fs2: "fs2 = fs_put fs1 (joinpath d (name s)) (File c0 (S_IMODE (S_IFREG OR m)))"
        by blast
      then have l2: "lstat fs2 (joinpath d (name s)) = Some (File c0 (S_IMODE (S_IFREG OR m)))"
        by (simp add: lstat_fs_put)
      have k2: "lstat fs2 q = lstat fs q"
        using fs2 k1 assms(2) by (simp add: lstat_fs_put)
      from assms Inr False cp l2 k2 show ?thesis
        by (auto simp: install_one_unfold stat_File chmod_file lstat_fs_put)
    qed
  qed
qed

lemma install_one_directory:
  assumes "lstat fs (joinpath d (name s)) = Some Dir"
  shows "install_one os fs s d lnk =
           (Inl (IsADirectoryError (py ''Cannot replace directory with script file: '' @
                                    str_of_path (joinpath d (name s)))), fs)"
  using assms by (simp add: install_one_unfold clear_destination_cases)

lemma install_one_keeps_directory:
  assumes "install_one os fs s d lnk = (r, fs')" "lstat fs q = Some Dir"
  shows "lstat fs' q = Some Dir"
proof (cases "q = joinpath d (name s)")
  case True
  with assms install_one_directory [of fs d s os lnk] show ?thesis by simp
next
  case False
  from install_one_elsewhere [OF assms(1) False] assms(2) show ?thesis by simp
qed

section \<open>The install loop\<close>

lemma install_loop_append:
  "install_loop os fs (xs @ ys) d lnk acc =
     (case install_loop os fs xs d lnk acc of
        (Inl e, fs1) \<Rightarrow> (Inl e, fs1)
      | (Inr acc1, fs1) \<Rightarrow> install_loop os fs1 ys d lnk acc1)"
  by (induction xs arbitrary: fs acc) (auto split: prod.splits sum.splits)

lemma install_loop_elsewhere:
  assumes "q \<notin> (\<lambda>s. joinpath d (name s)) ` set xs"
  shows "lstat (snd (install_loop os fs xs d lnk acc)) q = lstat fs q"
  using assms
proof (induction xs arbitrary: fs acc)
  case Nil
  then show ?case by simp
next
  case (Cons s xs)
  obtain r fs1 where one: "install_one os fs s d lnk = (r, fs1)"
    by (cases "install_one os fs s d lnk")
  from Cons.prems have "q \<noteq> joinpath d (name s)" by auto
  from install_one_elsewhere [OF one this] have k: "lstat fs1 q = lstat fs q" .
  from Cons.prems have rest: "q \<notin> (\<lambda>s. joinpath d (name s)) ` set xs" by auto
  show ?case
  proof (cases r)
    case (Inl e)
    with one k show ?thesis by simp
  next
    case (Inr p)
    with one k Cons.IH [OF rest, of fs1 "acc @ [p]"] show ?thesis by simp
  qed
qed

lemma install_loop_keeps_directory:
  assumes "lstat fs q = Some Dir"
  shows "lstat (snd (install_loop os fs xs d lnk acc)) q = Some Dir"
  using assms
proof (induction xs arbitrary: fs acc)
  case Nil
  then show ?case by simp
next
  case (Cons s xs)
  obtain r fs1 where one: "install_one os fs s d lnk = (r, fs1)"
    by (cases "install_one os fs s d lnk")
  from install_one_keeps_directory [OF one Cons.prems] have k: "lstat fs1 q = Some Dir" .
  show ?case
  proof (cases r)
    case (Inl e)
    with one k show ?thesis by simp
  next
    case (Inr p)
    with one Cons.IH [OF k, of "acc @ [p]"] show ?thesis by simp
  qed
qed

text \<open>
  A run of the loop that fails has installed the scripts before the failing one, and
  ends as the failing turn leaves the filesystem.
\<close>

lemma install_loop_failure:
  assumes "install_loop os fs xs d lnk acc = (Inl e, fs')"
  shows "\<exists>pre c post acc1 fs1.
           xs = pre @ c # post \<and>
           install_loop os fs pre d lnk acc = (Inr acc1, fs1) \<and>
           install_one os fs1 c d lnk = (Inl e, fs')"
  using assms
proof (induction xs arbitrary: fs acc)
  case Nil
  then show ?case by simp
next
  case (Cons s xs)
  obtain r fs1 where one: "install_one os fs s d lnk = (r, fs1)"
    by (cases "install_one os fs s d lnk")
  show ?case
  proof (cases r)
    case (Inl e1)
    with one Cons.prems have "e1 = e" "fs1 = fs'" by simp_all
    with one Inl have "s # xs = [] @ s # xs \<and>
        install_loop os fs [] d lnk acc = (Inr acc, fs) \<and>
        install_one os fs s d lnk = (Inl e, fs')"
      by simp
    then show ?thesis by blast
  next
    case (Inr p)
    with one Cons.prems have "install_loop os fs1 xs d lnk (acc @ [p]) = (Inl e, fs')"
      by simp
    from Cons.IH [OF this] obtain pre c post acc1 fs2 where
      xs: "xs = pre @ c # post"
      and pre: "install_loop os fs1 pre d lnk (acc @ [p]) = (Inr acc1, fs2)"
      and c: "install_one os fs2 c d lnk = (Inl e, fs')"
      by blast
    from one Inr pre have "install_loop os fs (s # pre) d lnk acc = (Inr acc1, fs2)"
      by simp
    with xs c have "s # xs = (s # pre) @ c # post \<and>
        install_loop os fs (s # pre) d lnk acc = (Inr acc1, fs2) \<and>
        install_one os fs2 c d lnk = (Inl e, fs')"
      by simp
    then show ?thesis by blast
  qed
qed

lemma install_loop_blocked:
  assumes "b \<in> set xs" "lstat fs (joinpath d (name b)) = Some Dir"
  shows "\<exists>e. fst (install_loop os fs xs d lnk acc) = Inl e"
  using assms
proof (induction xs arbitrary: fs acc)
  case Nil
  then show ?case by simp
next
  case (Cons s xs)
  obtain r fs1 where one: "install_one os fs s d lnk = (r, fs1)"
    by (cases "install_one os fs s d lnk")
  show ?case
  proof (cases r)
    case (Inl e)
    with one show ?thesis by simp
  next
    case (Inr p)
    have "b \<noteq> s"
    proof
      assume "b = s"
      with Cons.prems(2) install_one_directory [of fs d s os lnk] one Inr show False
        by simp
    qed
    with Cons.prems(1) have b: "b \<in> set xs" by simp
    from install_one_keeps_directory [OF one Cons.prems(2)]
    have "lstat fs1 (joinpath d (name b)) = Some Dir" .
    from Cons.IH [OF b this, of "acc @ [p]"] one Inr show ?thesis by simp
  qed
qed

text \<open>
  Claim C4. Let the destination of a discovered script \<open>b\<close> be a real directory. Then the
  run ends with status 1 and that directory is still there. Moreover, from any
  filesystem with that directory, the installation of the list raises an error and
  leaves the directory in place; the filesystem it leaves is the one reached by
  installing the scripts before the failing one, with no rollback, and then the failing
  turn; a turn that fails on a directory changes nothing and raises \<open>IsADirectoryError\<close>.
\<close>

theorem directory_in_the_way:
  assumes res: "resolve os (files w) (arg_install_dir a) = Inr d"
    and disc: "discover_source_scripts (files w) (detect_repo_root (files w) (program_dir os)) =
                 (source_dir, source_scripts, [])"
    and b: "b \<in> set source_scripts"
    and dir: "lstat (files w) (joinpath d (name b)) = Some Dir"
  shows "exit_status (fst (main os a w)) = 1 \<and>
         lstat (files (snd (main os a w))) (joinpath d (name b)) = Some Dir \<and>
         (\<forall>fs. lstat fs (joinpath d (name b)) = Some Dir \<longrightarrow>
            (\<exists>e fs' pre c post installed fs1.
               install_scripts_with_mode os fs source_scripts d (arg_symlink a) = (Inl e, fs') \<and>
               lstat fs' (joinpath d (name b)) = Some Dir \<and>
               source_scripts = pre @ c # post \<and>
               install_scripts_with_mode os fs pre d (arg_symlink a) = (Inr installed, fs1) \<and>
               install_one os fs1 c d (arg_symlink a) = (Inl e, fs') \<and>
               (lstat fs1 (joinpath d (name c)) = Some Dir \<longrightarrow>
                  fs' = fs1 \<and>
                  e = IsADirectoryError (py ''Cannot replace directory with script file: '' @
                                         str_of_path (joinpath d (name c))))))"
proof -
  let ?dest = "joinpath d (name b)"
  have inst: "\<exists>e fs' pre c post installed fs1.
               install_scripts_with_mode os fs source_scripts d (arg_symlink a) = (Inl e, fs') \<and>
               lstat fs' ?dest = Some Dir \<and>
               source_scripts = pre @ c # post \<and>
               install_scripts_with_mode os fs pre d (arg_symlink a) = (Inr installed, fs1) \<and>
               install_one os fs1 c d (arg_symlink a) = (Inl e, fs') \<and>
               (lstat fs1 (joinpath d (name c)) = Some Dir \<longrightarrow>
                  fs' = fs1 \<and>
                  e = IsADirectoryError (py ''Cannot replace directory with script file: '' @
                                         str_of_path (joinpath d (name c))))"
    if there: "lstat fs ?dest = Some Dir" for fs
  proof -
    from install_loop_blocked [OF b there, of os "arg_symlink a" "[]"]
    obtain e fs' where run: "install_loop os fs source_scripts d (arg_symlink a) [] = (Inl e, fs')"
      by (cases "install_loop os fs source_scripts d (arg_symlink a) []") auto
    from install_loop_keeps_directory [OF there, of os source_scripts d "arg_symlink a" "[]"] run
    have kept: "lstat fs' ?dest = Some Dir" by simp
    from install_loop_failure [OF run] obtain pre c post installed fs1 where
      split: "source_scripts = pre @ c # post"
      and pre: "install_loop os fs pre d (arg_symlink a) [] = (Inr installed, fs1)"
      and turn: "install_one os fs1 c d (arg_symlink a) = (Inl e, fs')"
      by blast
    have "fs' = fs1 \<and>
          e = IsADirectoryError (py ''Cannot replace directory with script file: '' @
                                 str_of_path (joinpath d (name c)))"
      if "lstat fs1 (joinpath d (name c)) = Some Dir"
      using install_one_directory [OF that, of os "arg_symlink a"] turn by simp
    with run kept split pre turn show ?thesis
      unfolding install_scripts_with_mode_def by blast
  qed
  have ne: "source_scripts \<noteq> []" using b by auto
  have "exit_status (fst (main os a w)) = 1 \<and> lstat (files (snd (main os a w))) ?dest = Some Dir"
  proof (cases "mkdir_p (files w) d")
    case (Inl e)
    with res disc ne dir show ?thesis by (simp add: main_def)
  next
    case (Inr fs1)
    from mkdir_p_keeps [OF Inr dir] have d1: "lstat fs1 ?dest = Some Dir" .
    let ?c = "confirm_overwrites (w\<lparr>files := fs1\<rparr>)
                (overwrite_paths_of fs1 source_scripts d) (arg_yes a)"
    obtain r w2 where c: "?c = (r, w2)" by (cases ?c)
    have f2: "files w2 = fs1"
      using files_confirm_overwrites [of "w\<lparr>files := fs1\<rparr>"
              "overwrite_paths_of fs1 source_scripts d" "arg_yes a"] c
      by simp
    show ?thesis
    proof (cases r)
      case (Inl e)
      with res disc ne Inr c f2 d1 show ?thesis by (simp add: main_def)
    next
      case ok: (Inr yes)
      show ?thesis
      proof (cases yes)
        case False
        with res disc ne Inr c f2 d1 ok show ?thesis by (simp add: main_def)
      next
        case True
        from inst [of fs1] d1 obtain e fs3 where
          run: "install_scripts_with_mode os fs1 source_scripts d (arg_symlink a) = (Inl e, fs3)"
          and kept: "lstat fs3 ?dest = Some Dir"
          by blast
        from res disc ne Inr c f2 ok True run kept show ?thesis
          by (simp add: main_def)
      qed
    qed
  qed
  with inst show ?thesis by blast
qed

theorem directory_in_the_way_witness:
  "resolve ex_os (files (ex_world ex_fs_blocked [])) (arg_install_dir ex_args_yes) =
     Inr (abs_path [''home'', ''u'', ''bin'']) \<and>
   discover_source_scripts (files (ex_world ex_fs_blocked []))
       (detect_repo_root (files (ex_world ex_fs_blocked [])) (program_dir ex_os)) =
     (abs_path [''repo'', ''bin''],
      [abs_path [''repo'', ''bin'', ''a''], abs_path [''repo'', ''bin'', ''b''],
       abs_path [''repo'', ''bin'', ''c'']], []) \<and>
   lstat (files (ex_world ex_fs_blocked []))
     (joinpath (abs_path [''home'', ''u'', ''bin'']) (name (abs_path [''repo'', ''bin'', ''b'']))) =
     Some Dir \<and>
   exit_status (fst (main ex_os ex_args_yes (ex_world ex_fs_blocked []))) = 1 \<and>
   lstat (files (snd (main ex_os ex_args_yes (ex_world ex_fs_blocked []))))
     (joinpath (abs_path [''home'', ''u'', ''bin'']) (name (abs_path [''repo'', ''bin'', ''b'']))) =
     Some Dir \<and>
   lstat (files (snd (main ex_os ex_args_yes (ex_world ex_fs_blocked []))))
     (abs_path [''home'', ''u'', ''bin'', ''a'']) = Some (File (py ''echo a'') 484) \<and>
   lstat (files (snd (main ex_os ex_args_yes (ex_world ex_fs_blocked []))))
     (abs_path [''home'', ''u'', ''bin'', ''c'']) = None"
proof -
  have res: "resolve ex_os (files (ex_world ex_fs_blocked [])) (arg_install_dir ex_args_yes) =
     Inr (abs_path [''home'', ''u'', ''bin''])"
    by (simp add: ex_os_def ex_args_yes_def)
  have disc: "discover_source_scripts (files (ex_world ex_fs_blocked []))
       (detect_repo_root (files (ex_world ex_fs_blocked [])) (program_dir ex_os)) =
     (abs_path [''repo'', ''bin''],
      [abs_path [''repo'', ''bin'', ''a''], abs_path [''repo'', ''bin'', ''b''],
       abs_path [''repo'', ''bin'', ''c'']], [])"
    by code_simp
  have b: "abs_path [''repo'', ''bin'', ''b''] \<in>
      set [abs_path [''repo'', ''bin'', ''a''], abs_path [''repo'', ''bin'', ''b''],
           abs_path [''repo'', ''bin'', ''c'']]"
    by simp
  have dir: "lstat (files (ex_world ex_fs_blocked []))
     (joinpath (abs_path [''home'', ''u'', ''bin'']) (name (abs_path [''repo'', ''bin'', ''b'']))) =
     Some Dir"
    by code_simp
  have a: "lstat (files (snd (main ex_os ex_args_yes (ex_world ex_fs_blocked []))))
     (abs_path [''home'', ''u'', ''bin'', ''a'']) = Some (File (py ''echo a'') 484)"
    by code_simp
  have c: "lstat (files (snd (main ex_os ex_args_yes (ex_world ex_fs_blocked []))))
     (abs_path [''home'', ''u'', ''bin'', ''c'']) = None"
    by code_simp
  from directory_in_the_way [OF res disc b dir] res disc dir a c
  show ?thesis by blast
qed

section \<open>Copy mode\<close>

lemma follow_fs_remove:
  "follow n (fs_remove fs p) q = Some r \<Longrightarrow> map_of (fs_remove fs p) r = Some x \<Longrightarrow>
   follow n fs q = Some r"
proof (induction n arbitrary: q)
  case 0
  then show ?case by simp
next
  case (Suc n)
  show ?case
  proof (cases "\<exists>t. map_of (fs_remove fs p) q = Some (Symlink t)")
    case True
    then obtain t where t: "map_of (fs_remove fs p) q = Some (Symlink t)" by blast
    then have t': "map_of fs q = Some (Symlink t)"
      by (simp add: map_of_fs_remove split: if_splits)
    from Suc.prems(1) t have "follow n (fs_remove fs p) t = Some r" by simp
    from Suc.IH [OF this Suc.prems(2)] t' show ?thesis by simp
  next
    case False
    then have "follow (Suc n) (fs_remove fs p) q = Some q"
      by (intro follow_not_symlink) auto
    with Suc.prems(1) have rq: "r = q" by simp
    with Suc.prems(2) have "map_of fs q = Some x"
      by (simp add: map_of_fs_remove split: if_splits)
    moreover from False rq Suc.prems(2) have "\<And>t. x \<noteq> Symlink t" by auto
    ultimately have "follow (Suc n) fs q = Some q"
      by (intro follow_not_symlink) auto
    with rq show ?thesis by simp
  qed
qed

lemma stat_fs_remove:
  assumes "stat (fs_remove fs p) q = Some x"
  shows "stat fs q = Some x"
proof -
  from assms obtain r where r: "final_path (fs_remove fs p) q = Some r"
    and x: "map_of (fs_remove fs p) r = Some x"
    by (auto simp: stat_def split: option.splits)
  from follow_fs_remove [OF r [unfolded final_path_def] x]
  have "final_path fs q = Some r" by (simp add: final_path_def)
  moreover from x have "map_of fs r = Some x"
    by (simp add: map_of_fs_remove split: if_splits)
  ultimately show ?thesis by (simp add: stat_def)
qed

lemma S_IMODE_regular: "S_IMODE (S_IFREG OR m) = S_IMODE m"
proof -
  have "S_IFREG AND (4095 :: 32 word) = 0" by (simp add: S_IFREG_def)
  then show ?thesis
    by (simp add: S_IMODE_def bit.conj_disj_distrib2)
qed

text \<open>
  A turn in copy mode that succeeds: the source was a regular file, and the destination is a
  file with its text and with its permission bits and the owner-execute bit.
\<close>

lemma install_one_copy:
  assumes "install_one os fs s d False = (Inr p, fs')"
  shows "\<exists>c m. stat fs s = Some (File c m) \<and> p = joinpath d (name s) \<and>
               lstat fs' (joinpath d (name s)) =
                 Some (File c (S_IMODE (st_mode (File c m)) OR S_IXUSR))"
proof -
  let ?dest = "joinpath d (name s)"
  from assms obtain fs0 where cl: "clear_destination fs ?dest = Inr fs0"
    by (auto simp: install_one_unfold split: sum.splits)
  note c = clear_destination_result [OF cl]
  from assms cl obtain fs2 where cp: "copy2 fs0 s ?dest = Inr fs2"
    by (auto simp: install_one_unfold split: sum.splits)
  from copy2_fresh [OF c(1) cp] obtain c0 m where
    src0: "stat fs0 s = Some (File c0 m)"
    and fs2: "fs2 = fs_put fs0 ?dest (File c0 (S_IMODE (S_IFREG OR m)))"
    by blast
  from fs2 have l2: "lstat fs2 ?dest = Some (File c0 (S_IMODE (S_IFREG OR m)))"
    by (simp add: lstat_fs_put)
  from assms cl cp l2 have p: "p = ?dest"
    and fs': "fs' = fs_put fs2 ?dest
                (File c0 ((st_mode (File c0 (S_IMODE (S_IFREG OR m))) OR S_IXUSR) AND 4095))"
    by (auto simp: install_one_unfold stat_File chmod_file)
  have "lstat fs' ?dest = Some (File c0 (S_IMODE m OR S_IXUSR))"
    using fs' chmod_after_copy_bits [of m] by (simp add: lstat_fs_put or.assoc)
  moreover have "stat fs s = Some (File c0 m)"
    using c(3) src0 by (auto dest: stat_fs_remove)
  ultimately show ?thesis
    using p by (auto simp: S_IMODE_regular)
qed

text \<open>
  Claim C6. When the scripts are installed in copy mode and no later script has the
  destination of the script \<open>s\<close>, the destination of \<open>s\<close> is at the end a regular file
  with the text of the source and with the permission bits of the source, as they were when
  its turn came, ORed with \<open>S_IXUSR\<close>: every bit of the source is kept, and no bit but
  \<open>S_IXUSR\<close> differs.
\<close>

theorem copy_mode_permission:
  assumes whole: "install_scripts_with_mode os fs (pre @ s # post) d False = (Inr installed, fs')"
    and later: "joinpath d (name s) \<notin> (\<lambda>t. joinpath d (name t)) ` set post"
  shows "\<exists>installed1 fs1 c m.
           install_scripts_with_mode os fs pre d False = (Inr installed1, fs1) \<and>
           stat fs1 s = Some (File c m) \<and>
           lstat fs' (joinpath d (name s)) =
             Some (File c (S_IMODE (st_mode (File c m)) OR S_IXUSR)) \<and>
           (S_IMODE (st_mode (File c m)) OR S_IXUSR) AND S_IMODE (st_mode (File c m)) =
             S_IMODE (st_mode (File c m)) \<and>
           (S_IMODE (st_mode (File c m)) OR S_IXUSR) AND NOT S_IXUSR =
             S_IMODE (st_mode (File c m)) AND NOT S_IXUSR"
proof -
  let ?dest = "joinpath d (name s)"
  from whole obtain installed1 fs1 where
    pre: "install_loop os fs pre d False [] = (Inr installed1, fs1)"
    and rest: "install_loop os fs1 (s # post) d False installed1 = (Inr installed, fs')"
    unfolding install_scripts_with_mode_def install_loop_append
    by (auto split: prod.splits sum.splits)
  from rest obtain p fs2 where
    one: "install_one os fs1 s d False = (Inr p, fs2)"
    and tail: "install_loop os fs2 post d False (installed1 @ [p]) = (Inr installed, fs')"
    by (auto split: prod.splits sum.splits)
  from install_one_copy [OF one] obtain c m where
    src: "stat fs1 s = Some (File c m)"
    and dst: "lstat fs2 ?dest = Some (File c (S_IMODE (st_mode (File c m)) OR S_IXUSR))"
    by blast
  from install_loop_elsewhere [OF later, of os fs2 False "installed1 @ [p]"] tail
  have "lstat fs' ?dest = lstat fs2 ?dest" by simp
  with dst have fin: "lstat fs' ?dest = Some (File c (S_IMODE (st_mode (File c m)) OR S_IXUSR))"
    by simp
  have bits1: "(x OR y) AND x = x" for x y :: "32 word"
    by (simp add: bit_eq_iff bit_and_iff bit_or_iff)
  have bits2: "(x OR y) AND NOT y = x AND NOT y" for x y :: "32 word"
    by (auto simp: bit_eq_iff bit_and_iff bit_or_iff bit_not_iff)
  from pre src fin bits1 bits2 show ?thesis
    unfolding install_scripts_with_mode_def by blast
qed

theorem copy_mode_permission_witness:
  "install_scripts_with_mode ex_os ex_fs_overwrite
       ([] @ abs_path [''repo'', ''bin'', ''hello''] # [abs_path [''repo'', ''bin'', ''world'']])
       (abs_path [''home'', ''u'', ''bin'']) False =
     (Inr [abs_path [''home'', ''u'', ''bin'', ''hello''], abs_path [''home'', ''u'', ''bin'', ''world'']],
      snd (install_scripts_with_mode ex_os ex_fs_overwrite
             ([] @ abs_path [''repo'', ''bin'', ''hello''] # [abs_path [''repo'', ''bin'', ''world'']])
             (abs_path [''home'', ''u'', ''bin'']) False)) \<and>
   joinpath (abs_path [''home'', ''u'', ''bin'']) (name (abs_path [''repo'', ''bin'', ''hello''])) \<notin>
     (\<lambda>t. joinpath (abs_path [''home'', ''u'', ''bin'']) (name t)) `
       set [abs_path [''repo'', ''bin'', ''world'']] \<and>
   stat ex_fs_overwrite (abs_path [''repo'', ''bin'', ''hello'']) = Some (File (py ''echo hello'') 420) \<and>
   lstat (snd (install_scripts_with_mode ex_os ex_fs_overwrite
             ([] @ abs_path [''repo'', ''bin'', ''hello''] # [abs_path [''repo'', ''bin'', ''world'']])
             (abs_path [''home'', ''u'', ''bin'']) False))
     (joinpath (abs_path [''home'', ''u'', ''bin'']) (name (abs_path [''repo'', ''bin'', ''hello'']))) =
     Some (File (py ''echo hello'') (S_IMODE (st_mode (File (py ''echo hello'') 420)) OR S_IXUSR)) \<and>
   S_IMODE (st_mode (File (py ''echo hello'') 420)) OR S_IXUSR = 484"
proof -
  let ?run = "install_scripts_with_mode ex_os ex_fs_overwrite
       ([] @ abs_path [''repo'', ''bin'', ''hello''] # [abs_path [''repo'', ''bin'', ''world'']])
       (abs_path [''home'', ''u'', ''bin'']) False"
  have "fst ?run =
     Inr [abs_path [''home'', ''u'', ''bin'', ''hello''], abs_path [''home'', ''u'', ''bin'', ''world'']]"
    by code_simp
  then have whole: "?run =
     (Inr [abs_path [''home'', ''u'', ''bin'', ''hello''], abs_path [''home'', ''u'', ''bin'', ''world'']],
      snd ?run)"
    by (metis prod.collapse)
  have later: "joinpath (abs_path [''home'', ''u'', ''bin'']) (name (abs_path [''repo'', ''bin'', ''hello''])) \<notin>
     (\<lambda>t. joinpath (abs_path [''home'', ''u'', ''bin'']) (name t)) `
       set [abs_path [''repo'', ''bin'', ''world'']]"
    by code_simp
  have src: "stat ex_fs_overwrite (abs_path [''repo'', ''bin'', ''hello'']) =
               Some (File (py ''echo hello'') 420)"
    by code_simp
  have first: "install_scripts_with_mode ex_os ex_fs_overwrite [] (abs_path [''home'', ''u'', ''bin'']) False =
                 (Inr [], ex_fs_overwrite)"
    by (simp add: install_scripts_with_mode_def)
  have bits: "S_IMODE (st_mode (File (py ''echo hello'') 420)) OR S_IXUSR = 484"
    by (simp add: S_IMODE_def S_IFREG_def S_IXUSR_def)
  from copy_mode_permission [OF whole later] first src
  have "lstat (snd ?run)
     (joinpath (abs_path [''home'', ''u'', ''bin'']) (name (abs_path [''repo'', ''bin'', ''hello'']))) =
     Some (File (py ''echo hello'') (S_IMODE (st_mode (File (py ''echo hello'') 420)) OR S_IXUSR))"
    by auto
  with whole later src bits show ?thesis by blast
qed

section \<open>Lines and substrings\<close>

lemma py_append: "py (a @ b) = py a @ py b"
  by (simp add: py_def)

lemma str_in_iff: "str_in t s \<longleftrightarrow> (\<exists>a b. s = a @ t @ b)"
proof (induction s)
  case Nil
  then show ?case by auto
next
  case (Cons c cs)
  show ?case
  proof
    assume "str_in t (c # cs)"
    then consider "take (length t) (c # cs) = t" | "str_in t cs" by auto
    then show "\<exists>a b. c # cs = a @ t @ b"
    proof cases
      case 1
      then have "c # cs = [] @ t @ drop (length t) (c # cs)"
        by (metis append_Nil append_take_drop_id)
      then show ?thesis by blast
    next
      case 2
      with Cons.IH obtain a b where "cs = a @ t @ b" by blast
      then have "c # cs = (c # a) @ t @ b" by simp
      then show ?thesis by blast
    qed
  next
    assume "\<exists>a b. c # cs = a @ t @ b"
    then obtain a b where ab: "c # cs = a @ t @ b" by blast
    show "str_in t (c # cs)"
    proof (cases a)
      case Nil
      with ab have "take (length t) (c # cs) = t" by simp
      then show ?thesis by simp
    next
      case (Cons x a')
      with ab have "cs = a' @ t @ b" by simp
      with Cons.IH have "str_in t cs" by blast
      then show ?thesis by simp
    qed
  qed
qed

lemma str_in_middle: "str_in t (a @ t @ b)"
  by (auto simp: str_in_iff)

lemma strip_unchanged:
  assumes "s \<noteq> []" "\<not> is_space (hd s)" "\<not> is_space (last s)"
  shows "strip s = s"
proof -
  from assms(1,2) have "dropWhile is_space s = s"
    by (cases s) auto
  moreover from assms(1,3) have "dropWhile is_space (rev s) = rev s"
    by (cases "rev s") (auto simp: hd_rev)
  ultimately show ?thesis by (simp add: strip_def)
qed

lemma splitlines_from_single:
  "\<forall>c \<in> set l. \<not> is_linebreak c \<Longrightarrow> splitlines_from cur (l @ [10]) = [cur @ l]"
proof (induction l arbitrary: cur)
  case Nil
  then show ?case by (simp add: is_linebreak_def)
next
  case (Cons x l)
  then have x: "\<not> is_linebreak x" and l: "\<forall>c \<in> set l. \<not> is_linebreak c" by auto
  from x have x13: "x \<noteq> 13" by (auto simp: is_linebreak_def)
  obtain d cs where dcs: "l @ [10] = d # cs" by (cases "l @ [10]") auto
  have "splitlines_from cur (x # d # cs) = splitlines_from (cur @ [x]) (d # cs)"
    using x x13 by simp
  with dcs Cons.IH [OF l, of "cur @ [x]"] show ?case by simp
qed

lemma splitlines_from_newline:
  "splitlines_from cur (10 # rest) = [cur] @ splitlines_from [] rest"
  by (cases rest) (simp_all add: is_linebreak_def)

lemma splitlines_from_after_newline:
  "\<exists>ls. splitlines_from cur (xs @ 10 # rest) = ls @ splitlines_from [] rest"
proof (induction xs arbitrary: cur rule: induct_list012)
  case 1
  from splitlines_from_newline [of cur rest] show ?case by auto
next
  case (2 x)
  consider "x = 13" | "x \<noteq> 13" "is_linebreak x" | "x \<noteq> 13" "\<not> is_linebreak x" by blast
  then show ?case
  proof cases
    case 1
    then have "splitlines_from cur ([x] @ 10 # rest) = [cur] @ splitlines_from [] rest"
      by simp
    then show ?thesis by blast
  next
    case 2
    then have "splitlines_from cur ([x] @ 10 # rest) = (cur # [[]]) @ splitlines_from [] rest"
      using splitlines_from_newline [of "[]" rest] by simp
    then show ?thesis by blast
  next
    case 3
    then have "splitlines_from cur ([x] @ 10 # rest) = [cur @ [x]] @ splitlines_from [] rest"
      using splitlines_from_newline [of "cur @ [x]" rest] by simp
    then show ?thesis by blast
  qed
next
  case (3 x y zs)
  from "3.IH"(1) [of "[]"] obtain lsa where
    a: "splitlines_from [] (zs @ 10 # rest) = lsa @ splitlines_from [] rest" by blast
  from "3.IH"(2) [of "[]"] obtain lsb where
    b: "splitlines_from [] ((y # zs) @ 10 # rest) = lsb @ splitlines_from [] rest" by blast
  from "3.IH"(2) [of "cur @ [x]"] obtain lsc where
    c: "splitlines_from (cur @ [x]) ((y # zs) @ 10 # rest) = lsc @ splitlines_from [] rest" by blast
  consider "x = 13 \<and> y = 10" | "\<not> (x = 13 \<and> y = 10)" "is_linebreak x"
    | "\<not> (x = 13 \<and> y = 10)" "\<not> is_linebreak x" by blast
  then show ?case
  proof cases
    case 1
    then have "splitlines_from cur ((x # y # zs) @ 10 # rest) = (cur # lsa) @ splitlines_from [] rest"
      using a by simp
    then show ?thesis by blast
  next
    case 2
    then have "splitlines_from cur ((x # y # zs) @ 10 # rest) = (cur # lsb) @ splitlines_from [] rest"
      using b by auto
    then show ?thesis by blast
  next
    case 3
    then have "splitlines_from cur ((x # y # zs) @ 10 # rest) = lsc @ splitlines_from [] rest"
      using c by auto
    then show ?thesis by blast
  qed
qed

lemma appended_line_is_a_line:
  assumes "\<forall>c \<in> set l. \<not> is_linebreak c"
  shows "l \<in> set (splitlines (xs @ [10] @ l @ [10]))"
proof -
  from splitlines_from_after_newline [of "[]" xs "l @ [10]"] obtain ls where
    "splitlines_from [] (xs @ 10 # l @ [10]) = ls @ splitlines_from [] (l @ [10])"
    by blast
  with splitlines_from_single [OF assms, of "[]"] show ?thesis
    by (simp add: splitlines_def)
qed

lemma scan_lines_iff:
  "scan_lines toks ls \<longleftrightarrow>
     (\<exists>raw \<in> set ls.
        strip raw \<noteq> [] \<and> \<not> startswith (strip raw) (py ''#'') \<and>
        (str_in (py ''PATH'') (strip raw) \<or> str_in (py ''fish_add_path'') (strip raw)) \<and>
        list_ex (\<lambda>token. str_in token (strip raw)) toks)"
  by (induction ls) (auto simp: Let_def)

section \<open>Appending to the configuration file\<close>

lemma follow_target_not_symlink:
  "follow n fs p = Some q \<Longrightarrow> map_of fs q \<noteq> Some (Symlink t)"
  by (induction n arbitrary: p) (auto split: option.splits node.splits)

lemma follow_fs_put:
  assumes "follow n fs p = Some q" "\<And>t. nd \<noteq> Symlink t"
  shows "follow n (fs_put fs q nd) p = Some q"
  using assms(1)
proof (induction n arbitrary: p)
  case 0
  then show ?case by simp
next
  case (Suc n)
  show ?case
  proof (cases "\<exists>t. map_of fs p = Some (Symlink t)")
    case True
    then obtain t where t: "map_of fs p = Some (Symlink t)" by blast
    with Suc.prems have rec: "follow n fs t = Some q" by simp
    from follow_target_not_symlink [OF Suc.prems] t have "p \<noteq> q" by auto
    with t have "map_of (fs_put fs q nd) p = Some (Symlink t)"
      by (simp add: map_of_fs_put)
    with Suc.IH [OF rec] show ?thesis by simp
  next
    case False
    then have "follow (Suc n) fs p = Some p"
      by (intro follow_not_symlink) auto
    with Suc.prems have "p = q" by simp
    moreover have "follow (Suc n) (fs_put fs q nd) q = Some q"
      using assms(2) by (intro follow_not_symlink) (auto simp: map_of_fs_put)
    ultimately show ?thesis by simp
  qed
qed

lemma stat_after_append:
  assumes "final_path fs p = Some q"
  shows "stat (fs_put fs q (File c m)) p = Some (File c m)"
proof -
  from follow_fs_put [OF assms [unfolded final_path_def], of "File c m"]
  have "final_path (fs_put fs q (File c m)) p = Some q"
    by (simp add: final_path_def)
  then show ?thesis by (simp add: stat_def map_of_fs_put)
qed

lemma stat_at_final_path:
  "final_path fs p = Some q \<Longrightarrow> stat fs p = lstat fs q"
  by (simp add: stat_def lstat_def)

section \<open>The suggested line\<close>

lemma replace_char_absent: "old \<notin> set s \<Longrightarrow> replace_char old new s = s"
  unfolding replace_char_def by (induction s) auto

lemma detect_path_line:
  assumes "detect_path_update_target os fs d = Inr target"
  shows "\<exists>v. format_posix_path_value os fs d (home os) = Inr v \<and>
             (path_line target = export_line (replace_char 34 [92, 34] v) \<or>
              path_line target = fish_line (replace_char 34 [92, 34] v))"
  using assms
  by (auto simp: detect_path_update_target_def Let_def split: sum.splits if_splits)

lemma export_line_detected:
  assumes "\<forall>c \<in> set v. \<not> is_linebreak c"
  shows "strip (export_line v) = export_line v" "export_line v \<noteq> []"
    "\<not> startswith (export_line v) (py ''#'')"
    "str_in (py ''PATH'') (export_line v)" "str_in v (export_line v)"
    "\<forall>c \<in> set (export_line v). \<not> is_linebreak c"
proof -
  show "strip (export_line v) = export_line v"
    by (rule strip_unchanged) (simp_all add: export_line_def py_def is_space_def)
  show "export_line v \<noteq> []" by (simp add: export_line_def py_def)
  show "\<not> startswith (export_line v) (py ''#'')"
    by (simp add: export_line_def py_def startswith_def)
  have "export_line v = py ''export '' @ py ''PATH'' @ (py ''=\"'' @ v @ py '':$PATH\"'')"
    by (simp add: export_line_def py_def)
  then show "str_in (py ''PATH'') (export_line v)"
    by (simp only: str_in_middle)
  show "str_in v (export_line v)"
    unfolding export_line_def by (rule str_in_middle)
  show "\<forall>c \<in> set (export_line v). \<not> is_linebreak c"
    using assms by (auto simp: export_line_def py_def is_linebreak_def)
qed

lemma fish_line_detected:
  assumes "\<forall>c \<in> set v. \<not> is_linebreak c"
  shows "strip (fish_line v) = fish_line v" "fish_line v \<noteq> []"
    "\<not> startswith (fish_line v) (py ''#'')"
    "str_in (py ''fish_add_path'') (fish_line v)" "str_in v (fish_line v)"
    "\<forall>c \<in> set (fish_line v). \<not> is_linebreak c"
proof -
  show "strip (fish_line v) = fish_line v"
    by (rule strip_unchanged) (simp_all add: fish_line_def py_def is_space_def)
  show "fish_line v \<noteq> []" by (simp add: fish_line_def py_def)
  show "\<not> startswith (fish_line v) (py ''#'')"
    by (simp add: fish_line_def py_def startswith_def)
  have "fish_line v = [] @ py ''fish_add_path'' @ (py '' \"'' @ v @ py ''\"'')"
    by (simp add: fish_line_def py_def)
  then show "str_in (py ''fish_add_path'') (fish_line v)"
    by (simp only: str_in_middle)
  show "str_in v (fish_line v)"
    unfolding fish_line_def by (rule str_in_middle)
  show "\<forall>c \<in> set (fish_line v). \<not> is_linebreak c"
    using assms by (auto simp: fish_line_def py_def is_linebreak_def)
qed

lemma scan_finds_appended_line:
  assumes nl: "\<forall>c \<in> set v. \<not> is_linebreak c"
    and line: "line = export_line v \<or> line = fish_line v"
  shows "scan_lines [t, v] (splitlines (xs @ [10] @ line @ [10]))"
proof -
  from line have facts: "strip line = line" "line \<noteq> []" "\<not> startswith line (py ''#'')"
    "str_in (py ''PATH'') line \<or> str_in (py ''fish_add_path'') line" "str_in v line"
    "\<forall>c \<in> set line. \<not> is_linebreak c"
    using export_line_detected [OF nl] fish_line_detected [OF nl] by auto
  from appended_line_is_a_line [OF facts(6)]
  have "line \<in> set (splitlines (xs @ [10] @ line @ [10]))" .
  with facts show ?thesis
    unfolding scan_lines_iff by (intro bexI [of _ line]) simp_all
qed

lemma maybe_offer_already_configured:
  assumes "detect_path_update_target os (files w) d = Inr target"
    and "rc_file_has_path_entry os (files w) target d = Inr True"
  shows "files (snd (maybe_offer_path_update os w d y)) = files w"
proof (cases "is_in_path os (files w) d")
  case (Inl e)
  then show ?thesis by (simp add: maybe_offer_path_update_def)
next
  case (Inr found)
  with assms show ?thesis
    by (cases found) (simp_all add: maybe_offer_path_update_def Let_def)
qed

section \<open>A double quote in the install directory\<close>

lemma fs_put_fs_put: "fs_put (fs_put fs p n) p n' = fs_put fs p n'"
  by (simp add: fs_put_def fs_remove_def)

lemma ex_quote_detect:
  "detect_path_update_target ex_os ex_fs_profile ex_quote_dir = Inr ex_quote_target"
  by code_simp

lemma ex_quote_block_scalar: "list_all is_scalar ex_quote_block"
  by (simp add: ex_quote_block_def PATH_UPDATE_MARKER_def ex_quote_target_def export_line_def
        py_def is_scalar_def)

lemma ex_quote_block_newlines: "universal_newlines ex_quote_block = ex_quote_block"
  by (simp add: ex_quote_block_def PATH_UPDATE_MARKER_def ex_quote_target_def export_line_def
        py_def)

lemma ex_quote_block_end: "ex_quote_block \<noteq> [] \<and> endswith ex_quote_block [10]"
  by (simp add: ex_quote_block_def endswith_def)

lemma ex_quote_lines:
  "splitlines ex_quote_block = [PATH_UPDATE_MARKER, path_line ex_quote_target]"
  by (simp add: ex_quote_block_def splitlines_def PATH_UPDATE_MARKER_def ex_quote_target_def
        export_line_def py_def is_linebreak_def)

lemma ex_quote_scan:
  "\<not> scan_lines [str_of_path ex_quote_dir, py ''/opt/a'' @ [34] @ py ''b'']
       [PATH_UPDATE_MARKER, path_line ex_quote_target]"
  by (simp add: PATH_UPDATE_MARKER_def ex_quote_target_def ex_quote_dir_def export_line_def
        str_of_path_def py_def strip_def is_space_def startswith_def Let_def)

lemma ex_quote_value:
  "format_posix_path_value ex_os fs0 ex_quote_dir (home ex_os) = Inr (py ''/opt/a'' @ [34] @ py ''b'')"
  by (simp add: format_posix_path_value_def ex_os_def ex_quote_dir_def abs_path_def relative_to_def
        str_of_path_def py_def)

lemma ex_quote_append:
  "append_path_update ex_os ex_fs_profile ex_quote_target = (Inr (), ex_fs_quote_after)"
proof -
  let ?rc = "abs_path [''home'', ''u'', ''.zshrc'']"
  have rc: "rc_file ex_quote_target = ?rc" by (simp add: ex_quote_target_def)
  have home: "lstat ex_fs_profile (parent ?rc) = Some Dir"
    by (simp add: lstat_def ex_fs_profile_def parent_def abs_path_def py_def)
  have none: "lstat ex_fs_profile ?rc = None"
    by (simp add: lstat_def ex_fs_profile_def abs_path_def py_def)
  have um: "(438 :: 32 word) AND NOT (umask ex_os) = 420"
    by (simp add: ex_os_def)
  have opened: "open_append (umask ex_os) ex_fs_profile ?rc =
                  Inr (?rc, fs_put ex_fs_profile ?rc (File [] 420))"
    using none home
    by (simp add: open_append_def final_path_missing is_dir_def stat_Dir um)
  have same: "fs_remove ex_fs_profile ?rc = ex_fs_profile"
    by (simp add: fs_remove_def ex_fs_profile_def abs_path_def py_def)
  have written: "write_text (fs_put ex_fs_profile ?rc (File [] 420)) ?rc ex_quote_block =
                 Inr ex_fs_quote_after"
    using ex_quote_block_scalar
    by (simp add: write_text_def lstat_fs_put fs_put_fs_put)
       (simp add: fs_put_def same ex_fs_quote_after_def)
  show ?thesis
    unfolding append_path_update_def rc mkdir_p_existing [OF home] ex_quote_block_def [symmetric]
    using none opened written
    by (simp add: exists_def stat_missing)
qed

lemma ex_quote_read:
  "stat ex_fs_quote_after (rc_file ex_quote_target) = Some (File ex_quote_block 420)"
  by (rule stat_File) (simp add: lstat_def ex_fs_quote_after_def ex_quote_target_def)

lemma ex_quote_rc_text:
  "read_text ex_fs_quote_after (rc_file ex_quote_target) = Inr ex_quote_block"
  using ex_quote_block_scalar
  by (simp add: read_text_def ex_quote_read ex_quote_block_newlines S_IRUSR_def)

lemma ex_quote_has:
  "rc_file_has_path_entry ex_os ex_fs_quote_after ex_quote_target ex_quote_dir = Inr False"
  using ex_quote_scan
  by (simp add: rc_file_has_path_entry_def exists_def ex_quote_read ex_quote_rc_text
        ex_quote_value ex_quote_lines)

lemma ex_quote_not_in_path:
  "is_in_path ex_os fs0 ex_quote_dir = Inr False"
  by (simp add: is_in_path_def ex_os_def ex_quote_dir_def split_def Path_of_str_def
        startswith_def py_def)

lemma ex_quote_detect_after:
  "detect_path_update_target ex_os ex_fs_quote_after ex_quote_dir = Inr ex_quote_target"
  by (simp only: detect_path_update_target_def Let_def ex_quote_value)
     (simp add: ex_os_def Path_of_str_def split_def name_def lower_def startswith_def
        joinpath_def ex_quote_target_def abs_path_def replace_char_def py_def)

lemma ex_quote_second_append:
  "append_path_update ex_os ex_fs_quote_after ex_quote_target =
     (Inr (),
      fs_put ex_fs_quote_after (abs_path [''home'', ''u'', ''.zshrc''])
        (File (ex_quote_block @ ex_quote_block) 420))"
proof -
  let ?rc = "abs_path [''home'', ''u'', ''.zshrc'']"
  have rc: "rc_file ex_quote_target = ?rc" by (simp add: ex_quote_target_def)
  have home: "lstat ex_fs_quote_after (parent ?rc) = Some Dir"
    by (simp add: lstat_def ex_fs_quote_after_def ex_fs_profile_def parent_def abs_path_def py_def)
  have l: "lstat ex_fs_quote_after ?rc = Some (File ex_quote_block 420)"
    by (simp add: lstat_def ex_fs_quote_after_def)
  have opened: "open_append (umask ex_os) ex_fs_quote_after ?rc = Inr (?rc, ex_fs_quote_after)"
    using l by (simp add: open_append_def final_path_File S_IWUSR_def)
  have written: "write_text ex_fs_quote_after ?rc ex_quote_block =
     Inr (fs_put ex_fs_quote_after ?rc (File (ex_quote_block @ ex_quote_block) 420))"
    using ex_quote_block_scalar l by (simp add: write_text_def)
  show ?thesis
    unfolding append_path_update_def rc mkdir_p_existing [OF home] ex_quote_block_def [symmetric]
    using ex_quote_rc_text [unfolded rc] ex_quote_read [unfolded rc] ex_quote_block_end
      opened written
    by (simp add: exists_def)
qed

lemma ex_quote_second_run:
  "files (snd (maybe_offer_path_update ex_os (ex_world ex_fs_quote_after []) ex_quote_dir True)) =
     fs_put ex_fs_quote_after (abs_path [''home'', ''u'', ''.zshrc''])
        (File (ex_quote_block @ ex_quote_block) 420)"
proof -
  have f: "files (ex_world ex_fs_quote_after []) = ex_fs_quote_after"
    by (simp add: ex_world_def)
  show ?thesis
    by (simp add: maybe_offer_path_update_def f ex_quote_not_in_path ex_quote_detect_after
          ex_quote_has Let_def ex_quote_second_append)
qed

text \<open>
  Claim C3 fails on the code for an install directory with a double quote in its name.
  The line that \<open>detect_path_update_target\<close> composes holds the value with the quote
  escaped, and \<open>rc_file_has_path_entry\<close> looks for the value as it is: after the block has
  been appended once, the scan of the resulting file returns false, and the next run of the
  advisor with \<open>--yes\<close> appends the block a second time.
\<close>

theorem quoted_install_dir_appended_twice:
  "detect_path_update_target ex_os ex_fs_profile ex_quote_dir = Inr ex_quote_target \<and>
   path_line ex_quote_target = py ''export PATH=\"/opt/a'' @ [92, 34] @ py ''b:$PATH\"'' \<and>
   append_path_update ex_os ex_fs_profile ex_quote_target = (Inr (), ex_fs_quote_after) \<and>
   read_text ex_fs_quote_after (rc_file ex_quote_target) =
     Inr (PATH_UPDATE_MARKER @ [10] @ path_line ex_quote_target @ [10]) \<and>
   rc_file_has_path_entry ex_os ex_fs_quote_after ex_quote_target ex_quote_dir = Inr False \<and>
   read_text
     (files (snd (maybe_offer_path_update ex_os (ex_world ex_fs_quote_after []) ex_quote_dir True)))
     (rc_file ex_quote_target) =
     Inr ((PATH_UPDATE_MARKER @ [10] @ path_line ex_quote_target @ [10]) @
          (PATH_UPDATE_MARKER @ [10] @ path_line ex_quote_target @ [10]))"
proof -
  have line: "path_line ex_quote_target = py ''export PATH=\"/opt/a'' @ [92, 34] @ py ''b:$PATH\"''"
    by (simp add: ex_quote_target_def export_line_def py_def)
  have twice_scalar: "list_all is_scalar (ex_quote_block @ ex_quote_block)"
    using ex_quote_block_scalar by simp
  have twice_newlines: "universal_newlines (ex_quote_block @ ex_quote_block) =
                          ex_quote_block @ ex_quote_block"
    by (simp add: ex_quote_block_def PATH_UPDATE_MARKER_def ex_quote_target_def export_line_def
          py_def)
  have "stat (fs_put ex_fs_quote_after (abs_path [''home'', ''u'', ''.zshrc''])
                (File (ex_quote_block @ ex_quote_block) 420)) (rc_file ex_quote_target) =
          Some (File (ex_quote_block @ ex_quote_block) 420)"
    by (rule stat_File) (simp add: lstat_fs_put ex_quote_target_def)
  then have again: "read_text
     (files (snd (maybe_offer_path_update ex_os (ex_world ex_fs_quote_after []) ex_quote_dir True)))
     (rc_file ex_quote_target) = Inr (ex_quote_block @ ex_quote_block)"
    using twice_scalar
    by (simp add: ex_quote_second_run read_text_def twice_newlines S_IRUSR_def)
  show ?thesis
    using ex_quote_detect line ex_quote_append ex_quote_rc_text ex_quote_has again
    unfolding ex_quote_block_def by blast
qed

section \<open>A name that ends in a newline\<close>

lemma discovery_linked_bin:
  "discover_source_scripts ex_fs_linked_bin (abs_path [''repo'']) =
     (abs_path [''repo'', ''bin''], [abs_path [''repo'', ''scripts'', ''foo-bar'']],
      [abs_path [''repo'', ''scripts'', ''BadName'']])"
  by code_simp

text \<open>
  Claim C1 fails on the code for a file whose name ends in a newline. The name \<open>foo\n\<close> is
  not a name of the pattern as the specification describes it, and \<open>foo\n\<close> is a regular
  file that is not hidden; yet \<open>re.match\<close> accepts it, because \<open>$\<close> also holds before a
  newline that ends the string, and discovery returns it in the valid list and not in the
  invalid list.
\<close>

theorem trailing_newline_name_is_valid:
  "is_file ex_fs_newline (Path True [py ''repo'', py ''bin'', py ''foo'' @ [10]]) \<and>
   \<not> startswith (name (Path True [py ''repo'', py ''bin'', py ''foo'' @ [10]])) (py ''.'') \<and>
   \<not> spec_name_ok (name (Path True [py ''repo'', py ''bin'', py ''foo'' @ [10]])) \<and>
   spec_name_ok (py ''foo'') \<and>
   re_match SCRIPT_NAME_PATTERN (name (Path True [py ''repo'', py ''bin'', py ''foo'' @ [10]])) \<and>
   discover_source_scripts ex_fs_newline (abs_path [''repo'']) =
     (abs_path [''repo'', ''bin''], [Path True [py ''repo'', py ''bin'', py ''foo'' @ [10]]], [])"
  by code_simp

section \<open>What the pattern accepts\<close>

lemma conc_Nil: "[] \<in> conc A B \<longleftrightarrow> [] \<in> A \<and> [] \<in> B"
  by (auto simp: conc_def)

lemma conc_Cons:
  "c # w \<in> conc A B \<longleftrightarrow>
     ([] \<in> A \<and> c # w \<in> B) \<or> (\<exists>u v. w = u @ v \<and> c # u \<in> A \<and> v \<in> B)"
  by (auto simp: conc_def Cons_eq_append_conv)

lemma conc_assoc: "conc (conc A B) C = conc A (conc B C)"
  unfolding conc_def by (auto, metis append.assoc, metis append.assoc)

lemma star_Cons_split:
  assumes "x \<in> star A" "x = c # w"
  shows "\<exists>u v. w = u @ v \<and> c # u \<in> A \<and> v \<in> star A"
  using assms
proof (induction arbitrary: w rule: star.induct)
  case star_empty
  then show ?case by simp
next
  case (star_step u v)
  show ?case
  proof (cases u)
    case Nil
    with star_step show ?thesis by simp
  next
    case (Cons d u')
    with star_step.prems have "d = c" "w = u' @ v" by simp_all
    with Cons star_step.hyps show ?thesis by blast
  qed
qed

lemma star_Cons:
  "c # w \<in> star A \<longleftrightarrow> (\<exists>u v. w = u @ v \<and> c # u \<in> A \<and> v \<in> star A)"
proof
  assume "c # w \<in> star A"
  then show "\<exists>u v. w = u @ v \<and> c # u \<in> A \<and> v \<in> star A"
    by (rule star_Cons_split) simp
next
  assume "\<exists>u v. w = u @ v \<and> c # u \<in> A \<and> v \<in> star A"
  then obtain u v where "w = u @ v" "c # u \<in> A" "v \<in> star A" by blast
  then show "c # w \<in> star A"
    using star_step [of "c # u" A v] by simp
qed

lemma nullable_lang: "nullable r \<longleftrightarrow> [] \<in> lang r"
  by (induction r) (auto simp: conc_Nil intro: star_empty)

lemma lang_deriv: "w \<in> lang (deriv c r) \<longleftrightarrow> c # w \<in> lang r"
proof (induction r arbitrary: w)
  case (Seq r s)
  show ?case
    by (auto simp: conc_Cons nullable_lang Seq.IH) (auto simp: conc_def Seq.IH)
next
  case (Star r)
  show ?case
    by (auto simp: star_Cons conc_def Star.IH)
qed auto

lemma re_match_lang: "re_match r w \<longleftrightarrow> w \<in> lang r"
  by (induction w arbitrary: r) (auto simp: nullable_lang lang_deriv)

lemma lang_script_pattern:
  "lang SCRIPT_NAME_PATTERN = conc (lang spec_name_pattern) {[], [10]}"
proof -
  have "lang Dollar = {[], [10]}" by (auto simp: Dollar_def)
  then show ?thesis
    by (simp add: SCRIPT_NAME_PATTERN_def spec_name_pattern_def conc_assoc)
qed

text \<open>
  \<open>re.match\<close> with the pattern of the source accepts the names of the specification's
  pattern, and those names followed by one newline, and no other.
\<close>

lemma re_match_script_pattern:
  "re_match SCRIPT_NAME_PATTERN s \<longleftrightarrow>
     spec_name_ok s \<or> (\<exists>u. s = u @ [10] \<and> spec_name_ok u)"
  by (auto simp: re_match_lang lang_script_pattern spec_name_ok_def conc_def)

lemma re_match_script_pattern_no_newline:
  assumes "s = [] \<or> last s \<noteq> 10"
  shows "re_match SCRIPT_NAME_PATTERN s \<longleftrightarrow> spec_name_ok s"
  using assms by (auto simp: re_match_script_pattern)

text \<open>
  When no entry of the source directory has a name that ends in a newline, discovery
  classifies by the pattern as the specification describes it.
\<close>

lemma discovery_classification_spec:
  assumes "is_dir fs (joinpath repo_root (py ''bin''))"
    and "discover_source_scripts fs repo_root = (bin_dir, valid, invalid)"
    and "\<forall>p \<in> set (iterdir fs bin_dir). name p = [] \<or> last (name p) \<noteq> 10"
  shows "(\<forall>p \<in> set (iterdir fs bin_dir).
            (is_file fs p \<and> \<not> startswith (name p) (py ''.'') \<and> spec_name_ok (name p) \<longrightarrow>
               p \<in> set valid) \<and>
            (is_file fs p \<and> \<not> startswith (name p) (py ''.'') \<and> \<not> spec_name_ok (name p) \<longrightarrow>
               p \<in> set invalid) \<and>
            (startswith (name p) (py ''.'') \<or> \<not> is_file fs p \<longrightarrow>
               p \<notin> set valid \<and> p \<notin> set invalid)) \<and>
         set valid \<inter> set invalid = {} \<and>
         sorted (map name valid) \<and> sorted (map name invalid)"
proof -
  have "re_match SCRIPT_NAME_PATTERN (name p) \<longleftrightarrow> spec_name_ok (name p)"
    if "p \<in> set (iterdir fs bin_dir)" for p
    using that assms(3) by (intro re_match_script_pattern_no_newline) blast
  with discovery_classification [OF assms(1,2)] show ?thesis
    by (metis (no_types, lifting))
qed

end
